theory Spec2Isabelle
  imports Complex_Main "HOL-Library.AList"
begin

section \<open>Python values\<close>

text \<open>
  A Python \<open>str\<close> is a sequence of Unicode code points, so \<open>len\<close>, slicing and
  equality are those of a list of numbers. A \<open>dict\<close> keeps its keys in insertion order;
  it is an association list with distinct keys: \<open>map_of\<close> reads it, \<open>AList.update\<close>
  assigns to a key (in place when the key is present, at the end otherwise), as
  \<open>d[k] = v\<close> does. Floats are modelled as real numbers (ideal arithmetic, no rounding).
  Every exception the modelled code can raise is a value of \<open>exn\<close>; a function that can
  raise returns \<open>exn + 'a\<close>.
\<close>

type_synonym ustr = "nat list"

type_synonym ('k, 'v) pydict = "('k \<times> 'v) list"

datatype exn =
    NameError string
  | AttributeError string
  | KeyError
  | ValueError
  | OperationalError
  | IntegrityError
  | FileNotFoundError
  | InferenceError ustr

definition has_key :: "('k, 'v) pydict \<Rightarrow> 'k \<Rightarrow> bool" where
  "has_key d k = (map_of d k \<noteq> None)"

definition dict_get :: "('k, 'v) pydict \<Rightarrow> 'k \<Rightarrow> 'v \<Rightarrow> 'v" where
  "dict_get d k dflt = (case map_of d k of None \<Rightarrow> dflt | Some v \<Rightarrow> v)"

text \<open>\<open>max(xs, key=f)\<close>: the first element whose key is maximal; ValueError on an empty
  sequence.\<close>

fun py_max_from :: "('a \<Rightarrow> real) \<Rightarrow> 'a \<Rightarrow> 'a list \<Rightarrow> 'a" where
  "py_max_from f best [] = best"
| "py_max_from f best (x # xs) = py_max_from f (if f best < f x then x else best) xs"

definition py_max :: "('a \<Rightarrow> real) \<Rightarrow> 'a list \<Rightarrow> exn + 'a" where
  "py_max f xs = (case xs of [] \<Rightarrow> Inl ValueError | x # rest \<Rightarrow> Inr (py_max_from f x rest))"

section \<open>String literals of the source\<close>

text \<open>The literals are Chinese text; each is given by its code points, with a
  transliteration.\<close>

definition s_general_medicine :: ustr where
  \<comment> \<open>"tong yong yi xue", the default domain (the spec's "General")\<close>
  "s_general_medicine = [36890, 29992, 21307, 23398]"

definition s_diagnostic_consult :: ustr where
  \<comment> \<open>"zhen duan zi xun", the default intent type (the spec's "DiagnosticConsult")\<close>
  "s_diagnostic_consult = [35786, 26029, 21672, 35810]"

definition s_general_model :: ustr where
  \<comment> \<open>"tong yong yi xue mo xing" (the spec's "GeneralModel")\<close>
  "s_general_model = [36890, 29992, 21307, 23398, 27169, 22411]"

definition s_zhongjing_model :: ustr where
  \<comment> \<open>"zhong jing mo xing" (the spec's "ZhongJing")\<close>
  "s_zhongjing_model = [20210, 26223, 27169, 22411]"

definition s_tcmchat :: ustr where
  \<comment> \<open>"TCMChat"\<close>
  "s_tcmchat = [84, 67, 77, 67, 104, 97, 116]"

definition s_high :: ustr where
  \<comment> \<open>"gao", urgency high\<close>
  "s_high = [39640]"

definition s_low :: ustr where
  \<comment> \<open>"di", urgency low, the default urgency\<close>
  "s_low = [20302]"

definition s_tcm :: ustr where
  \<comment> \<open>"zhong yi", the domain of traditional Chinese medicine (the spec's "TCM")\<close>
  "s_tcm = [20013, 21307]"

definition s_western :: ustr where
  \<comment> \<open>"xi yi", the domain of western medicine (the spec's "WesternMed")\<close>
  "s_western = [35199, 21307]"

definition s_pharmacology :: ustr where
  \<comment> \<open>"yao li xue"\<close>
  "s_pharmacology = [33647, 29702, 23398]"

definition s_nutrition :: ustr where
  \<comment> \<open>"ying yang xue"\<close>
  "s_nutrition = [33829, 20859, 23398]"

definition s_drug_query :: ustr where
  \<comment> \<open>"yao wu cha xun", the intent type of medication queries\<close>
  "s_drug_query = [33647, 29289, 26597, 35810]"

definition s_treatment_plan :: ustr where
  \<comment> \<open>"zhi liao fang an"\<close>
  "s_treatment_plan = [27835, 30103, 26041, 26696]"

definition s_health_advice :: ustr where
  \<comment> \<open>"jian kang jian yi"\<close>
  "s_health_advice = [20581, 24247, 24314, 35758]"

definition s_medium :: ustr where
  \<comment> \<open>"zhong", urgency medium\<close>
  "s_medium = [20013]"

section \<open>matching\_matrix.py: class MatchingMatrix\<close>

text \<open>
  The object's state: the nested dict \<open>matrix\<close> (domain, then intent type, then model,
  to a confidence), the list \<open>history\<close> and the counter \<open>model_call_count\<close>
  (a \<open>defaultdict(int)\<close>). A history record is one of the two dicts the methods
  \<open>_record_selection\<close> and \<open>_record_update\<close> append; the wall-clock timestamp each
  carries is not modelled (no method reads it).
\<close>

type_synonym conf_matrix = "(ustr, (ustr, (ustr, real) pydict) pydict) pydict"

datatype history_record =
    Selection ustr ustr ustr real ustr
  | Update ustr ustr ustr real real

record matching_matrix =
  matrix :: conf_matrix
  history :: "history_record list"
  model_call_count :: "(ustr, nat) pydict"

definition model_row :: "real \<Rightarrow> real \<Rightarrow> real \<Rightarrow> (ustr, real) pydict" where
  \<comment> \<open>one innermost dict of \<open>default_matrix\<close>, its three keys in the source's order\<close>
  "model_row zj tc gm = [(s_zhongjing_model, zj), (s_tcmchat, tc), (s_general_model, gm)]"

definition default_matrix :: conf_matrix where
  "default_matrix =
     [(s_tcm,
        [(s_diagnostic_consult, model_row 0.95 0.85 0.70),
         (s_drug_query, model_row 0.80 0.92 0.65),
         (s_treatment_plan, model_row 0.90 0.82 0.60),
         (s_health_advice, model_row 0.88 0.85 0.75)]),
      (s_western,
        [(s_diagnostic_consult, model_row 0.70 0.65 0.90),
         (s_drug_query, model_row 0.60 0.70 0.88),
         (s_treatment_plan, model_row 0.65 0.60 0.92),
         (s_health_advice, model_row 0.75 0.72 0.85)]),
      (s_pharmacology,
        [(s_diagnostic_consult, model_row 0.75 0.80 0.85),
         (s_drug_query, model_row 0.82 0.90 0.88),
         (s_treatment_plan, model_row 0.70 0.85 0.80),
         (s_health_advice, model_row 0.78 0.82 0.80)]),
      (s_nutrition,
        [(s_diagnostic_consult, model_row 0.80 0.75 0.82),
         (s_drug_query, model_row 0.70 0.72 0.75),
         (s_treatment_plan, model_row 0.85 0.80 0.78),
         (s_health_advice, model_row 0.90 0.85 0.88)]),
      (s_general_medicine,
        [(s_diagnostic_consult, model_row 0.80 0.78 0.85),
         (s_drug_query, model_row 0.75 0.80 0.82),
         (s_treatment_plan, model_row 0.78 0.75 0.85),
         (s_health_advice, model_row 0.82 0.80 0.85)])]"

definition new_matching_matrix :: matching_matrix where
  \<comment> \<open>\<open>MatchingMatrix()\<close> with no matrix file, as main.py constructs it\<close>
  "new_matching_matrix = \<lparr>matrix = default_matrix, history = [], model_call_count = []\<rparr>"

definition count_call :: "(ustr, nat) pydict \<Rightarrow> ustr \<Rightarrow> (ustr, nat) pydict" where
  \<comment> \<open>\<open>model_call_count[name] += 1\<close> on a \<open>defaultdict(int)\<close>\<close>
  "count_call cnt name = AList.update name (dict_get cnt name 0 + 1) cnt"

definition select_models ::
  "conf_matrix \<Rightarrow> ustr \<Rightarrow> ustr \<Rightarrow> exn + (ustr \<times> ustr \<times> (ustr, real) pydict)" where
  \<comment> \<open>lines 163-171 of \<open>get_best_model\<close> (and 206-214 of \<open>get_collaborative_models\<close>):
      the two fallbacks and \<open>models = self.matrix[domain][intent_type]\<close>\<close>
  "select_models m domain intent_type =
     (let domain = (if \<not> has_key m domain then s_general_medicine else domain) in
      case map_of m domain of
        None \<Rightarrow> Inl KeyError
      | Some intents \<Rightarrow>
          (let intent_type =
                 (if \<not> has_key intents intent_type then s_diagnostic_consult else intent_type) in
           case map_of intents intent_type of
             None \<Rightarrow> Inl KeyError
           | Some models \<Rightarrow> Inr (domain, intent_type, models)))"

definition boost_general :: "(ustr, real) pydict \<Rightarrow> (ustr, real) pydict" where
  \<comment> \<open>lines 175-179: \<open>models = models.copy()\<close>, the entry times 1.2, capped at 1.0\<close>
  "boost_general models =
     (let models1 = AList.update s_general_model (dict_get models s_general_model 0 * 1.2) models in
      if 1 < dict_get models1 s_general_model 0
      then AList.update s_general_model 1.0 models1
      else models1)"

definition get_best_model ::
  "matching_matrix \<Rightarrow> ustr \<Rightarrow> ustr \<Rightarrow> ustr \<Rightarrow> exn + ((ustr \<times> real) \<times> matching_matrix)" where
  "get_best_model self domain intent_type urgency =
     (case select_models (matrix self) domain intent_type of
        Inl e \<Rightarrow> Inl e
      | Inr (domain, intent_type, models) \<Rightarrow>
          (let models = (if urgency = s_high \<and> has_key models s_general_model
                         then boost_general models else models) in
           case py_max snd models of
             Inl e \<Rightarrow> Inl e
           | Inr best_model \<Rightarrow>
               Inr (best_model,
                    self\<lparr>history := history self @
                             [Selection domain intent_type (fst best_model) (snd best_model) urgency],
                         model_call_count := count_call (model_call_count self) (fst best_model)\<rparr>)))"

definition update_confidence ::
  "matching_matrix \<Rightarrow> ustr \<Rightarrow> ustr \<Rightarrow> ustr \<Rightarrow> real \<Rightarrow> bool \<times> matching_matrix" where
  "update_confidence self domain intent_type model feedback_score =
     (case map_of (matrix self) domain of
        None \<Rightarrow> (False, self)
      | Some intents \<Rightarrow>
          (case map_of intents intent_type of
             None \<Rightarrow> (False, self)
           | Some models \<Rightarrow>
               (case map_of models model of
                  None \<Rightarrow> (False, self)
                | Some current \<Rightarrow>
                    (let new = current * 0.9 + feedback_score * 0.1 in
                     (True,
                      self\<lparr>matrix :=
                             AList.update domain
                               (AList.update intent_type (AList.update model new models) intents)
                               (matrix self),
                           history := history self @
                             [Update domain intent_type model current new]\<rparr>)))))"

definition confidence_of :: "conf_matrix \<Rightarrow> ustr \<Rightarrow> ustr \<Rightarrow> ustr \<Rightarrow> real option" where
  \<comment> \<open>reading \<open>matrix[domain][intent_type][model]\<close>, None when a key is absent\<close>
  "confidence_of m domain intent_type model =
     (case map_of m domain of
        None \<Rightarrow> None
      | Some intents \<Rightarrow>
          (case map_of intents intent_type of
             None \<Rightarrow> None
           | Some models \<Rightarrow> map_of models model))"

section \<open>model\_router.py: the adapters and class ModelRouter\<close>

text \<open>
  \<open>intent_data\<close> is a dict of strings, read with \<open>.get(key, default)\<close>.
\<close>

type_synonym intent_data = "(ustr, ustr) pydict"

definition k_domain :: ustr where
  \<comment> \<open>"domain"\<close>
  "k_domain = [100, 111, 109, 97, 105, 110]"

definition k_intent_type :: ustr where
  \<comment> \<open>"intent_type"\<close>
  "k_intent_type = [105, 110, 116, 101, 110, 116, 95, 116, 121, 112, 101]"

definition k_urgency :: ustr where
  \<comment> \<open>"urgency"\<close>
  "k_urgency = [117, 114, 103, 101, 110, 99, 121]"

definition s_apology_short :: ustr where
  \<comment> \<open>the string \<open>_fallback_inference\<close> returns when no other adapter is registered
      ("sorry, the system cannot handle your request for now, please try again later")\<close>
  "s_apology_short =
     [25265, 27465, 65292, 31995, 32479, 26242, 26102, 26080, 27861, 22788, 29702, 24744,
      30340, 35831, 27714, 65292, 35831, 31245, 21518, 20877, 35797, 12290]"

definition s_apology :: ustr where
  \<comment> \<open>the string returned when the fallback adapter fails too (the same sentence, ending
      "... or rephrase your question")\<close>
  "s_apology =
     [25265, 27465, 65292, 31995, 32479, 26242, 26102, 26080, 27861, 22788, 29702, 24744,
      30340, 35831, 27714, 65292, 35831, 31245, 21518, 20877, 35797, 25110, 37325, 26032,
      34920, 36848, 24744, 30340, 38382, 39064, 12290]"

text \<open>
  An adapter is a \<open>BaseModel\<close>: its counters, and the body that produces the answer.
  The three bodies of the source are simulations; here the body is the field \<open>respond\<close>,
  any function of the query and the intent data that returns a text or raises. Each
  subclass wraps its body in the same \<open>infer\<close>: count the call, count the success or
  the failure, return the text or raise again. The latency total is not modelled.
\<close>

record adapter =
  call_count :: nat
  success_count :: nat
  failure_count :: nat
  respond :: "ustr \<Rightarrow> intent_data \<Rightarrow> exn + ustr"

definition infer :: "adapter \<Rightarrow> ustr \<Rightarrow> intent_data \<Rightarrow> (exn + ustr) \<times> adapter" where
  "infer a query idata =
     (let a1 = a\<lparr>call_count := call_count a + 1\<rparr> in
      case respond a query idata of
        Inr response \<Rightarrow> (Inr response, a1\<lparr>success_count := success_count a1 + 1\<rparr>)
      | Inl e \<Rightarrow> (Inl e, a1\<lparr>failure_count := failure_count a1 + 1\<rparr>))"

record model_router =
  matching :: matching_matrix
  models :: "(ustr, adapter) pydict"

definition new_adapter :: "(ustr \<Rightarrow> intent_data \<Rightarrow> exn + ustr) \<Rightarrow> adapter" where
  "new_adapter body = \<lparr>call_count = 0, success_count = 0, failure_count = 0, respond = body\<rparr>"

definition new_model_router ::
  "matching_matrix \<Rightarrow> (ustr \<Rightarrow> intent_data \<Rightarrow> exn + ustr) \<Rightarrow>
   (ustr \<Rightarrow> intent_data \<Rightarrow> exn + ustr) \<Rightarrow> (ustr \<Rightarrow> intent_data \<Rightarrow> exn + ustr) \<Rightarrow> model_router" where
  \<comment> \<open>\<open>ModelRouter(matching_matrix)\<close>: the three adapters, registered in this order\<close>
  "new_model_router mm zj tc gm =
     \<lparr>matching = mm,
      models = [(s_zhongjing_model, new_adapter zj), (s_tcmchat, new_adapter tc),
                (s_general_model, new_adapter gm)]\<rparr>"

definition fallback_inference ::
  "model_router \<Rightarrow> ustr \<Rightarrow> intent_data \<Rightarrow> ustr \<Rightarrow> (exn + ustr) \<times> model_router" where
  "fallback_inference self query idata failed_model =
     (case filter (\<lambda>name. name \<noteq> failed_model) (map fst (models self)) of
        [] \<Rightarrow> (Inr s_apology_short, self)
      | backup_model # _ \<Rightarrow>
          (case map_of (models self) backup_model of
             None \<Rightarrow> (Inr s_apology, self)
           | Some a \<Rightarrow>
               (case infer a query idata of
                  (Inr response, a') \<Rightarrow>
                    (Inr response, self\<lparr>models := AList.update backup_model a' (models self)\<rparr>)
                | (Inl e, a') \<Rightarrow>
                    (Inr s_apology, self\<lparr>models := AList.update backup_model a' (models self)\<rparr>))))"

text \<open>
  \<open>route\<close>. The collaborative branch runs the adapters on a thread pool; it is the
  parameter \<open>collab\<close> here, any function of the router, the query and the intent data.
  On the direct branch \<open>self.models[best_model_name].infer(...)\<close> stands inside the
  \<open>try\<close>, so a best model that is not registered (KeyError) falls back as a failed call
  does.
\<close>

definition route ::
  "(model_router \<Rightarrow> ustr \<Rightarrow> intent_data \<Rightarrow> (exn + ustr) \<times> model_router) \<Rightarrow>
   model_router \<Rightarrow> ustr \<Rightarrow> intent_data \<Rightarrow> (exn + ustr) \<times> model_router" where
  "route collab self query idata =
     (let domain = dict_get idata k_domain s_general_medicine;
          intent_type = dict_get idata k_intent_type s_diagnostic_consult;
          urgency = dict_get idata k_urgency s_low in
      case get_best_model (matching self) domain intent_type urgency of
        Inl e \<Rightarrow> (Inl e, self)
      | Inr ((best_model_name, confidence), mm) \<Rightarrow>
          (let self1 = self\<lparr>matching := mm\<rparr> in
           if confidence < 0.7 then collab self1 query idata
           else
             (case map_of (models self1) best_model_name of
                None \<Rightarrow> fallback_inference self1 query idata best_model_name
              | Some a \<Rightarrow>
                  (case infer a query idata of
                     (Inr response, a') \<Rightarrow>
                       (Inr response,
                        self1\<lparr>models := AList.update best_model_name a' (models self1)\<rparr>)
                   | (Inl e, a') \<Rightarrow>
                       fallback_inference
                         (self1\<lparr>models := AList.update best_model_name a' (models self1)\<rparr>)
                         query idata best_model_name))))"

definition calls :: "model_router \<Rightarrow> ustr \<Rightarrow> nat" where
  \<comment> \<open>\<open>self.models[name].call_count\<close>, 0 for a name that is not registered\<close>
  "calls self name = (case map_of (models self) name of None \<Rightarrow> 0 | Some a \<Rightarrow> call_count a)"

section \<open>knowledge\_repository.py: class KnowledgeRepository\<close>

subsection \<open>Names, exceptions in sequence, the clock, storage faults\<close>

text \<open>
  A function of the module that uses a global name finds it among the names the module
  binds, or raises NameError. The import statements of knowledge\_repository.py bind the
  names below and no other; \<open>re\<close> is not among them.
\<close>

definition module_imports :: "string list" where
  "module_imports = [''os'', ''json'', ''time'', ''logging'', ''datetime'', ''sqlite3'',
                     ''defaultdict'']"

definition global_name :: "string \<Rightarrow> exn + unit" where
  "global_name n = (if n \<in> set module_imports then Inr () else Inl (NameError n))"

definition then_do :: "exn + 'a \<Rightarrow> ('a \<Rightarrow> exn + 'b) \<Rightarrow> exn + 'b" where
  \<comment> \<open>one statement after another: an exception skips what follows\<close>
  "then_do m f = (case m of Inl e \<Rightarrow> Inl e | Inr x \<Rightarrow> f x)"

text \<open>
  Time is counted in microseconds, the resolution of \<open>datetime\<close>. The database keeps
  \<open>datetime.isoformat()\<close> strings and compares them as text, which orders them as the
  instants they denote. Every \<open>datetime.datetime.now()\<close> of the source is a parameter of
  the function that reads it, in the order of the reads.

  The storage layer can fail: a fault budget \<open>Some n\<close> lets the next \<open>n\<close> calls of
  \<open>sqlite3.connect\<close>, \<open>cursor.execute\<close> and \<open>conn.commit\<close> succeed and makes the
  one after them raise; \<open>None\<close> is a storage layer that does not fail. What a connection
  changes reaches the database at \<open>commit\<close>; a connection dropped before it leaves the
  database as it was.
\<close>

type_synonym time = int

type_synonym fault = "nat option"

definition storage_call :: "fault \<Rightarrow> exn + fault" where
  "storage_call flt =
     (case flt of
        None \<Rightarrow> Inr None
      | Some n \<Rightarrow> (if n = 0 then Inl OperationalError else Inr (Some (n - 1))))"

subsection \<open>The tables\<close>

datatype tier = Core | Extended | Temporary

record knowledge_item =
  item_id :: ustr
  query :: ustr
  original_response :: ustr
  cleaned_response :: ustr
  domain :: ustr
  intent_type :: ustr
  tier :: tier
  quality_score :: real
  feedback_score :: real
  usage_count :: nat
  created_at :: time
  updated_at :: time
  expires_at :: time
  metadata :: "(ustr, ustr) pydict"

record keyword_row =
  kw_keyword :: ustr
  kw_knowledge_id :: ustr
  kw_weight :: real

record feedback_row =
  fb_id :: nat
  fb_knowledge_id :: ustr
  fb_user_id :: ustr
  fb_score :: real
  fb_comment :: "ustr option"
  fb_created_at :: time

text \<open>
  The database file: the rows of the three tables in insertion order (the table
  \<open>keywords\<close> is the field \<open>keywords_rows\<close>), and the last value of the
  AUTOINCREMENT key of \<open>user_feedback\<close>. The two child tables are declared with
  \<open>FOREIGN KEY (knowledge_id) REFERENCES knowledge_items (id) ON DELETE CASCADE\<close>.
  SQLite enforces foreign keys on a connection only after \<open>PRAGMA foreign_keys = ON\<close>;
  a new connection has them off, and no method of the class issues the pragma.
\<close>

record database =
  knowledge_items :: "knowledge_item list"
  keywords_rows :: "keyword_row list"
  user_feedback :: "feedback_row list"
  feedback_seq :: nat

definition connection_foreign_keys :: bool where
  \<comment> \<open>\<open>PRAGMA foreign_keys\<close> of a connection that \<open>sqlite3.connect\<close> returns\<close>
  "connection_foreign_keys = False"

definition empty_database :: database where
  \<comment> \<open>after \<open>_init_database\<close> on a new file\<close>
  "empty_database = \<lparr>knowledge_items = [], keywords_rows = [], user_feedback = [], feedback_seq = 0\<rparr>"

definition tier_thresholds_core :: real where
  "tier_thresholds_core = 0.85"

definition tier_thresholds_extended :: real where
  "tier_thresholds_extended = 0.7"

definition expiry_times :: "tier \<Rightarrow> time" where
  \<comment> \<open>seconds in the source, microseconds here\<close>
  "expiry_times t =
     (case t of
        Core \<Rightarrow> 180 * 24 * 60 * 60 * 1000000
      | Extended \<Rightarrow> 90 * 24 * 60 * 60 * 1000000
      | Temporary \<Rightarrow> 30 * 24 * 60 * 60 * 1000000)"

definition determine_tier :: "real \<Rightarrow> tier" where
  "determine_tier score =
     (if tier_thresholds_core \<le> score then Core
      else if tier_thresholds_extended \<le> score then Extended
      else Temporary)"

subsection \<open>\<open>_generate_id\<close>\<close>

function dec_digits :: "nat \<Rightarrow> ustr" where
  "dec_digits n = (if n < 10 then [48 + n] else dec_digits (n div 10) @ [48 + n mod 10])"
  by pat_completeness auto
termination
  by (relation "measure id") auto

definition hex_digit :: "nat \<Rightarrow> nat" where
  "hex_digit d = (if d < 10 then 48 + d else 87 + d)"

definition hex_bytes :: "nat list \<Rightarrow> ustr" where
  \<comment> \<open>\<open>bytes.hex()\<close>: two lower-case digits for each byte\<close>
  "hex_bytes bs = concat (map (\<lambda>b. [hex_digit (b div 16 mod 16), hex_digit (b mod 16)]) bs)"

definition generate_id :: "nat \<Rightarrow> nat list \<Rightarrow> ustr" where
  \<comment> \<open>\<open>f"ki_{timestamp}_{random_part}"\<close>: \<open>timestamp\<close> is \<open>int(time.time() * 1000)\<close>,
      \<open>random_part\<close> the hex of the four bytes of \<open>os.urandom(4)\<close>\<close>
  "generate_id timestamp random_bytes =
     [107, 105, 95] @ dec_digits timestamp @ [95] @ hex_bytes random_bytes"

subsection \<open>\<open>_simple_tokenize\<close> and \<open>_extract_keywords\<close>\<close>

text \<open>
  \<open>is_space\<close> is the whitespace of \<open>str.split()\<close> and of \<open>\s\<close>. The alphanumeric
  characters of \<open>\w\<close> come from the Unicode database, which is not part of the
  repository: the predicate \<open>alnum\<close> is a parameter.
\<close>

definition is_space :: "nat \<Rightarrow> bool" where
  "is_space c =
     ((9 \<le> c \<and> c \<le> 13) \<or> (28 \<le> c \<and> c \<le> 32) \<or> c = 133 \<or> c = 160 \<or> c = 5760
      \<or> (8192 \<le> c \<and> c \<le> 8202) \<or> c = 8232 \<or> c = 8233 \<or> c = 8239 \<or> c = 8287
      \<or> c = 12288)"

definition strip_punctuation :: "(nat \<Rightarrow> bool) \<Rightarrow> ustr \<Rightarrow> ustr" where
  \<comment> \<open>\<open>re.sub(r'[^\w\s]', ' ', text)\<close>\<close>
  "strip_punctuation alnum text =
     map (\<lambda>c. if alnum c \<or> c = 95 \<or> is_space c then c else 32) text"

fun split_ws :: "ustr \<Rightarrow> ustr \<Rightarrow> ustr list" where
  \<comment> \<open>\<open>text.split()\<close>; the first argument is the token being read\<close>
  "split_ws cur [] = (if cur = [] then [] else [cur])"
| "split_ws cur (c # cs) =
     (if is_space c
      then (if cur = [] then split_ws [] cs else cur # split_ws [] cs)
      else split_ws (cur @ [c]) cs)"

definition is_cjk :: "nat \<Rightarrow> bool" where
  \<comment> \<open>a character between U+4E00 and U+9FFF, the bounds of the source's comparison\<close>
  "is_cjk c = (19968 \<le> c \<and> c \<le> 40959)"

definition ngrams :: "ustr \<Rightarrow> ustr list" where
  \<comment> \<open>the loop over \<open>range(len(token))\<close>: the 2- and 3-character slices at each index\<close>
  "ngrams token =
     concat (map (\<lambda>i. (if i + 1 < length token then [take 2 (drop i token)] else [])
                     @ (if i + 2 < length token then [take 3 (drop i token)] else []))
               [0 ..< length token])"

definition tokenize_text :: "(nat \<Rightarrow> bool) \<Rightarrow> ustr \<Rightarrow> ustr list" where
  "tokenize_text alnum text =
     concat (map (\<lambda>token. if list_ex is_cjk token then ngrams token else [token])
               (split_ws [] (strip_punctuation alnum text)))"

definition simple_tokenize :: "(nat \<Rightarrow> bool) \<Rightarrow> ustr \<Rightarrow> exn + ustr list" where
  \<comment> \<open>the first statement reads the global name \<open>re\<close>\<close>
  "simple_tokenize alnum text =
     then_do (global_name ''re'') (\<lambda>_. Inr (tokenize_text alnum text))"

definition count_tokens :: "ustr list \<Rightarrow> (ustr, nat) pydict" where
  \<comment> \<open>\<open>word_freq[token] += 1\<close> for each token, on a \<open>defaultdict(int)\<close>\<close>
  "count_tokens tokens = fold (\<lambda>token d. AList.update token (dict_get d token 0 + 1) d) tokens []"

definition extract_keywords :: "(nat \<Rightarrow> bool) \<Rightarrow> ustr \<Rightarrow> ustr \<Rightarrow> exn + (ustr, real) pydict" where
  "extract_keywords alnum q response =
     then_do (simple_tokenize alnum (q @ [32] @ response)) (\<lambda>tokens.
       let word_freq = count_tokens tokens;
           total_tokens = length tokens;
           kws = map (\<lambda>(word, freq). (word, real freq / real total_tokens))
                   (filter (\<lambda>(word, freq). 1 < length word) word_freq)
       in Inr (take 20 (sort_key (\<lambda>(word, w). - w) kws)))"

subsection \<open>\<open>store\<close>\<close>

text \<open>
  The argument \<open>knowledge_item\<close> is a dict with the keys \<open>original_response\<close>,
  \<open>cleaned_response\<close> and \<open>metadata\<close>. A public method returns its result, or the
  exception it raises, and the database it leaves behind.
\<close>

record knowledge_payload =
  p_original_response :: ustr
  p_cleaned_response :: ustr
  p_metadata :: "(ustr, ustr) pydict"

definition insert_item :: "knowledge_item \<Rightarrow> database \<Rightarrow> exn + database" where
  \<comment> \<open>INSERT INTO knowledge\_items; \<open>id\<close> is the primary key\<close>
  "insert_item row db =
     (if list_ex (\<lambda>k. item_id k = item_id row) (knowledge_items db) then Inl IntegrityError
      else Inr (db\<lparr>knowledge_items := knowledge_items db @ [row]\<rparr>))"

fun insert_keywords ::
  "ustr \<Rightarrow> (ustr, real) pydict \<Rightarrow> fault \<Rightarrow> database \<Rightarrow> exn + (fault \<times> database)" where
  \<comment> \<open>the loop of INSERT INTO keywords; (keyword, knowledge\_id) is the primary key\<close>
  "insert_keywords kid [] flt db = Inr (flt, db)"
| "insert_keywords kid ((kw, w) # rest) flt db =
     then_do (storage_call flt) (\<lambda>flt.
       if list_ex (\<lambda>r. kw_keyword r = kw \<and> kw_knowledge_id r = kid) (keywords_rows db)
       then Inl IntegrityError
       else insert_keywords kid rest flt
              (db\<lparr>keywords_rows := keywords_rows db @
                    [\<lparr>kw_keyword = kw, kw_knowledge_id = kid, kw_weight = w\<rparr>]\<rparr>))"

definition store_body ::
  "(nat \<Rightarrow> bool) \<Rightarrow> database \<Rightarrow> fault \<Rightarrow> knowledge_payload \<Rightarrow> ustr \<Rightarrow> intent_data \<Rightarrow> real \<Rightarrow>
   nat \<Rightarrow> nat list \<Rightarrow> time \<Rightarrow> time \<Rightarrow> exn + (ustr \<times> database)" where
  \<comment> \<open>the body of the \<open>try\<close>; \<open>timestamp\<close> and \<open>random_bytes\<close> are what \<open>_generate_id\<close>
      reads, \<open>t1\<close> and \<open>t2\<close> the two clock reads\<close>
  "store_body alnum self flt payload q idata qscore timestamp random_bytes t1 t2 =
     (let knowledge_id = generate_id timestamp random_bytes;
          tr = determine_tier qscore;
          expires = t1 + expiry_times tr;
          dname = dict_get idata k_domain s_general_medicine;
          intent = dict_get idata k_intent_type s_diagnostic_consult;
          now = t2
      in
      then_do (storage_call flt) (\<lambda>flt.
      then_do (storage_call flt) (\<lambda>flt.
      then_do (insert_item
                 \<lparr>item_id = knowledge_id, query = q,
                  original_response = p_original_response payload,
                  cleaned_response = p_cleaned_response payload,
                  domain = dname, intent_type = intent, tier = tr, quality_score = qscore,
                  feedback_score = 0, usage_count = 0, created_at = now, updated_at = now,
                  expires_at = expires, metadata = p_metadata payload\<rparr> self) (\<lambda>db1.
      then_do (extract_keywords alnum q (p_cleaned_response payload)) (\<lambda>kws.
      then_do (insert_keywords knowledge_id kws flt db1) (\<lambda>(flt, db2).
      then_do (storage_call flt) (\<lambda>flt.
      Inr (knowledge_id, db2))))))))"

definition store ::
  "(nat \<Rightarrow> bool) \<Rightarrow> database \<Rightarrow> fault \<Rightarrow> knowledge_payload \<Rightarrow> ustr \<Rightarrow> intent_data \<Rightarrow> real \<Rightarrow>
   nat \<Rightarrow> nat list \<Rightarrow> time \<Rightarrow> time \<Rightarrow> (exn + ustr) \<times> database" where
  \<comment> \<open>\<open>except Exception as e: ... raise\<close>\<close>
  "store alnum self flt payload q idata qscore timestamp random_bytes t1 t2 =
     (case store_body alnum self flt payload q idata qscore timestamp random_bytes t1 t2 of
        Inl e \<Rightarrow> (Inl e, self)
      | Inr (knowledge_id, db) \<Rightarrow> (Inr knowledge_id, db))"

subsection \<open>\<open>retrieve\<close>\<close>

text \<open>
  A returned row: the columns of the item, the dict parsed from the row's
  \<open>GROUP_CONCAT\<close> of keywords and weights, and in the second phase the count of
  matched keywords. SQL leaves the order of rows that tie under \<open>ORDER BY\<close> open; here
  they keep the order of the table. A negative \<open>LIMIT\<close> is no limit.
\<close>

record retrieved =
  r_item :: knowledge_item
  r_keywords :: "(ustr, real) pydict"
  r_keyword_match_count :: "nat option"

definition tier_rank :: "tier \<Rightarrow> nat" where
  \<comment> \<open>\<open>ORDER BY k.tier = 'core' DESC, k.tier = 'extended' DESC\<close>\<close>
  "tier_rank t = (case t of Core \<Rightarrow> 0 | Extended \<Rightarrow> 1 | Temporary \<Rightarrow> 2)"

definition sql_limit :: "int \<Rightarrow> 'a list \<Rightarrow> 'a list" where
  "sql_limit n rows = (if n < 0 then rows else take (nat n) rows)"

definition order_by_tier_quality :: "retrieved list \<Rightarrow> retrieved list" where
  "order_by_tier_quality rows =
     sort_key (\<lambda>r. tier_rank (tier (r_item r)))
       (sort_key (\<lambda>r. - quality_score (r_item r)) rows)"

definition exact_query :: "database \<Rightarrow> ustr \<Rightarrow> ustr \<Rightarrow> time \<Rightarrow> int \<Rightarrow> retrieved list" where
  \<comment> \<open>the first SELECT\<close>
  "exact_query db dname intent now limit =
     sql_limit limit
       (order_by_tier_quality
          (map (\<lambda>k. \<lparr>r_item = k,
                      r_keywords = map (\<lambda>r. (kw_keyword r, kw_weight r))
                                     (filter (\<lambda>r. kw_knowledge_id r = item_id k) (keywords_rows db)),
                      r_keyword_match_count = None\<rparr>)
             (filter (\<lambda>k. domain k = dname \<and> intent_type k = intent \<and> now < expires_at k)
                (knowledge_items db))))"

definition keyword_query ::
  "database \<Rightarrow> ustr list \<Rightarrow> time \<Rightarrow> ustr list \<Rightarrow> int \<Rightarrow> retrieved list" where
  \<comment> \<open>the second SELECT: the join keeps the keyword rows whose keyword is one of the
      query's, and the items that have such a row\<close>
  "keyword_query db query_keywords now exact_ids limit =
     sql_limit limit
       (sort_key (\<lambda>r. - int (case r_keyword_match_count r of None \<Rightarrow> 0 | Some n \<Rightarrow> n))
          (order_by_tier_quality
             (filter (\<lambda>r. r_keywords r \<noteq> [])
                (map (\<lambda>k.
                        (let matched = filter (\<lambda>r. kw_knowledge_id r = item_id k
                                                    \<and> kw_keyword r \<in> set query_keywords)
                                         (keywords_rows db)
                         in \<lparr>r_item = k,
                             r_keywords = map (\<lambda>r. (kw_keyword r, kw_weight r)) matched,
                             r_keyword_match_count =
                               Some (length (remdups (map kw_keyword matched)))\<rparr>))
                   (filter (\<lambda>k. now < expires_at k \<and> item_id k \<notin> set exact_ids)
                      (knowledge_items db))))))"

fun count_usage :: "ustr list \<Rightarrow> fault \<Rightarrow> database \<Rightarrow> exn + (fault \<times> database)" where
  \<comment> \<open>the loop of UPDATE knowledge\_items SET usage\_count = usage\_count + 1 WHERE id = ?\<close>
  "count_usage [] flt db = Inr (flt, db)"
| "count_usage (i # ids) flt db =
     then_do (storage_call flt) (\<lambda>flt.
       count_usage ids flt
         (db\<lparr>knowledge_items :=
               map (\<lambda>k. if item_id k = i then k\<lparr>usage_count := usage_count k + 1\<rparr> else k)
                 (knowledge_items db)\<rparr>))"

definition retrieve_body ::
  "(nat \<Rightarrow> bool) \<Rightarrow> database \<Rightarrow> fault \<Rightarrow> ustr \<Rightarrow> intent_data \<Rightarrow> int \<Rightarrow> time \<Rightarrow> time \<Rightarrow>
   exn + (retrieved list \<times> database)" where
  "retrieve_body alnum self flt q idata limit t1 t2 =
     (let dname = dict_get idata k_domain s_general_medicine;
          intent = dict_get idata k_intent_type s_diagnostic_consult
      in
      then_do (simple_tokenize alnum q) (\<lambda>tokens.
      let query_keywords = remdups tokens in
      then_do (storage_call flt) (\<lambda>flt.
      then_do (storage_call flt) (\<lambda>flt.
      let exact_matches = exact_query self dname intent t1 limit in
      then_do
        (if int (length exact_matches) < limit \<and> query_keywords \<noteq> []
         then then_do (storage_call flt) (\<lambda>flt.
                Inr (flt, exact_matches @
                       keyword_query self query_keywords t2
                         (map (\<lambda>r. item_id (r_item r)) exact_matches)
                         (limit - int (length exact_matches))))
         else Inr (flt, exact_matches)) (\<lambda>(flt, matches).
      then_do (count_usage (map (\<lambda>r. item_id (r_item r)) matches) flt self) (\<lambda>(flt, db1).
      then_do (storage_call flt) (\<lambda>flt.
      Inr (matches, db1))))))))"

definition retrieve ::
  "(nat \<Rightarrow> bool) \<Rightarrow> database \<Rightarrow> fault \<Rightarrow> ustr \<Rightarrow> intent_data \<Rightarrow> int \<Rightarrow> time \<Rightarrow> time \<Rightarrow>
   (exn + retrieved list) \<times> database" where
  \<comment> \<open>\<open>except Exception as e: ... return []\<close>\<close>
  "retrieve alnum self flt q idata limit t1 t2 =
     (case retrieve_body alnum self flt q idata limit t1 t2 of
        Inl e \<Rightarrow> (Inr [], self)
      | Inr (matches, db) \<Rightarrow> (Inr matches, db))"

subsection \<open>\<open>update_feedback\<close>\<close>

definition update_feedback_body ::
  "database \<Rightarrow> fault \<Rightarrow> ustr \<Rightarrow> ustr \<Rightarrow> real \<Rightarrow> ustr option \<Rightarrow> time \<Rightarrow> time \<Rightarrow>
   exn + (bool \<times> database)" where
  \<comment> \<open>\<open>t1\<close> is the clock read for \<open>now\<close>, \<open>t2\<close> the one for the new expiry\<close>
  "update_feedback_body self flt knowledge_id user_id score comment t1 t2 =
     then_do (storage_call flt) (\<lambda>flt.
     let now = t1 in
     then_do (storage_call flt) (\<lambda>flt.
     let db1 = self\<lparr>user_feedback := user_feedback self @
                       [\<lparr>fb_id = feedback_seq self + 1, fb_knowledge_id = knowledge_id,
                         fb_user_id = user_id, fb_score = score, fb_comment = comment,
                         fb_created_at = now\<rparr>],
                    feedback_seq := feedback_seq self + 1\<rparr> in
     then_do (storage_call flt) (\<lambda>flt.
     case find (\<lambda>k. item_id k = knowledge_id) (knowledge_items db1) of
       None \<Rightarrow> Inr (False, self)
     | Some row \<Rightarrow>
         (let current_tier = tier row;
              new_feedback_score =
                (if 0 < feedback_score row
                 then feedback_score row * 0.7 + score * 0.3
                 else score);
              combined_score = quality_score row * 0.6 + new_feedback_score * 0.4;
              new_tier = determine_tier combined_score;
              expires = (if new_tier \<noteq> current_tier
                         then Some (t2 + expiry_times new_tier) else None)
          in
          then_do (storage_call flt) (\<lambda>flt.
          let db2 = db1\<lparr>knowledge_items :=
                      map (\<lambda>k. if item_id k = knowledge_id
                                then (case expires of
                                        Some e \<Rightarrow> k\<lparr>feedback_score := new_feedback_score,
                                                     tier := new_tier, updated_at := now,
                                                     expires_at := e\<rparr>
                                      | None \<Rightarrow> k\<lparr>feedback_score := new_feedback_score,
                                                   tier := new_tier, updated_at := now\<rparr>)
                                else k)
                        (knowledge_items db1)\<rparr> in
          then_do (storage_call flt) (\<lambda>flt.
          Inr (True, db2)))))))"

definition update_feedback ::
  "database \<Rightarrow> fault \<Rightarrow> ustr \<Rightarrow> ustr \<Rightarrow> real \<Rightarrow> ustr option \<Rightarrow> time \<Rightarrow> time \<Rightarrow>
   (exn + bool) \<times> database" where
  \<comment> \<open>\<open>except Exception as e: ... return False\<close>\<close>
  "update_feedback self flt knowledge_id user_id score comment t1 t2 =
     (case update_feedback_body self flt knowledge_id user_id score comment t1 t2 of
        Inl e \<Rightarrow> (Inr False, self)
      | Inr (ok, db) \<Rightarrow> (Inr ok, db))"

subsection \<open>\<open>cleanup_expired\<close>\<close>

definition delete_expired :: "bool \<Rightarrow> time \<Rightarrow> database \<Rightarrow> database" where
  \<comment> \<open>DELETE FROM knowledge\_items WHERE expires\_at < ?, on a connection whose
      \<open>PRAGMA foreign_keys\<close> is the first argument: the cascade to the child tables runs
      only when it is on\<close>
  "delete_expired fk now db =
     (let gone = map item_id (filter (\<lambda>k. expires_at k < now) (knowledge_items db));
          db1 = db\<lparr>knowledge_items := filter (\<lambda>k. \<not> expires_at k < now) (knowledge_items db)\<rparr>
      in if fk
         then db1\<lparr>keywords_rows := filter (\<lambda>r. kw_knowledge_id r \<notin> set gone) (keywords_rows db),
                  user_feedback := filter (\<lambda>r. fb_knowledge_id r \<notin> set gone) (user_feedback db)\<rparr>
         else db1)"

definition cleanup_expired_body :: "database \<Rightarrow> fault \<Rightarrow> time \<Rightarrow> time \<Rightarrow> exn + (nat \<times> database)" where
  \<comment> \<open>\<open>t1\<close> is the clock read of the SELECT COUNT, \<open>t2\<close> the one of the DELETE\<close>
  "cleanup_expired_body self flt t1 t2 =
     then_do (storage_call flt) (\<lambda>flt.
     then_do (storage_call flt) (\<lambda>flt.
     let expired_count = length (filter (\<lambda>k. expires_at k < t1) (knowledge_items self)) in
     then_do (storage_call flt) (\<lambda>flt.
     let db1 = delete_expired connection_foreign_keys t2 self in
     then_do (storage_call flt) (\<lambda>flt.
     Inr (expired_count, db1)))))"

definition cleanup_expired :: "database \<Rightarrow> fault \<Rightarrow> time \<Rightarrow> time \<Rightarrow> (exn + nat) \<times> database" where
  \<comment> \<open>\<open>except Exception as e: ... return 0\<close>\<close>
  "cleanup_expired self flt t1 t2 =
     (case cleanup_expired_body self flt t1 t2 of
        Inl e \<Rightarrow> (Inr 0, self)
      | Inr (n, db) \<Rightarrow> (Inr n, db))"

section \<open>feedback\_optimizer.py: class FeedbackOptimizer\<close>

text \<open>
  The optimizer holds the matrix object and the repository object it was constructed
  with, its feedback history and its per-model statistics (a \<open>defaultdict\<close>). It calls
  methods of the two objects by name. Two kinds of these calls name methods that the classes
  of the repository do not define: \<open>retrieve_by_id\<close> on the repository (class
  KnowledgeRepository defines \<open>store\<close>, \<open>retrieve\<close>, \<open>update_feedback\<close>,
  \<open>cleanup_expired\<close>, \<open>get_statistics\<close> and private helpers), and \<open>get_domains\<close>,
  \<open>get_intent_types\<close>, \<open>get_models\<close>, \<open>get_confidence\<close> on the matrix (class
  MatchingMatrix defines \<open>get_best_model\<close>, \<open>get_collaborative_models\<close>,
  \<open>update_confidence\<close>, \<open>save_matrix\<close>, \<open>get_history\<close>,
  \<open>get_model_statistics\<close> and private helpers). Only the two mock classes of the
  file's test code define them. Here each such method is an optional attribute of the
  object: \<open>None\<close> when the object's class does not define it, and then the call raises
  AttributeError.
\<close>

definition k_model :: ustr where
  \<comment> \<open>"model"\<close>
  "k_model = [109, 111, 100, 101, 108]"

definition s_click :: ustr where
  "s_click = [99, 108, 105, 99, 107]"

definition s_copy :: ustr where
  "s_copy = [99, 111, 112, 121]"

definition s_share :: ustr where
  "s_share = [115, 104, 97, 114, 101]"

definition s_bookmark :: ustr where
  "s_bookmark = [98, 111, 111, 107, 109, 97, 114, 107]"

definition s_follow_recommendation :: ustr where
  "s_follow_recommendation =
     [102, 111, 108, 108, 111, 119, 95, 114, 101, 99, 111, 109, 109, 101, 110, 100, 97, 116,
      105, 111, 110]"

definition s_ignore :: ustr where
  "s_ignore = [105, 103, 110, 111, 114, 101]"

definition s_quick_exit :: ustr where
  "s_quick_exit = [113, 117, 105, 99, 107, 95, 101, 120, 105, 116]"

definition s_implicit_comment_prefix :: ustr where
  \<comment> \<open>"yin xing fan kui: " ("implicit feedback: "), the prefix of the stored comment\<close>
  "s_implicit_comment_prefix = [38544, 24615, 21453, 39304, 58, 32]"

definition s_updated_matrix_json :: ustr where
  \<comment> \<open>"updated\_matrix.json"\<close>
  "s_updated_matrix_json =
     [117, 112, 100, 97, 116, 101, 100, 95, 109, 97, 116, 114, 105, 120, 46, 106, 115, 111, 110]"

datatype feedback_record =
    Explicit ustr ustr real "ustr option" time
  | Implicit ustr ustr ustr real time

record model_stats =
  total_queries :: nat
  positive_feedback :: nat
  negative_feedback :: nat
  avg_score :: real

record feedback_optimizer =
  opt_matrix :: matching_matrix
  opt_repository :: database
  feedback_history :: "feedback_record list"
  model_performance :: "(ustr, model_stats) pydict"

definition feedback_weights_implicit :: real where
  "feedback_weights_implicit = 0.3"

definition implicit_score_mapping :: "(ustr, real) pydict" where
  "implicit_score_mapping =
     [(s_click, 0.6), (s_copy, 0.7), (s_share, 0.8), (s_bookmark, 0.9),
      (s_follow_recommendation, 0.8), (s_ignore, 0.3), (s_quick_exit, 0.2)]"

definition new_feedback_optimizer :: "matching_matrix \<Rightarrow> database \<Rightarrow> feedback_optimizer" where
  "new_feedback_optimizer mm repo =
     \<lparr>opt_matrix = mm, opt_repository = repo, feedback_history = [], model_performance = []\<rparr>"

type_synonym retrieve_by_id_method = "(database \<Rightarrow> ustr \<Rightarrow> knowledge_item list) option"

definition repository_retrieve_by_id :: retrieve_by_id_method where
  \<comment> \<open>the attribute \<open>retrieve_by_id\<close> of a KnowledgeRepository object\<close>
  "repository_retrieve_by_id = None"

definition mock_retrieve_by_id :: retrieve_by_id_method where
  \<comment> \<open>\<open>MockKnowledgeRepository.retrieve_by_id\<close> of the test code: the item with this id,
      in a list, or the empty list\<close>
  "mock_retrieve_by_id =
     Some (\<lambda>db knowledge_id. filter (\<lambda>k. item_id k = knowledge_id) (knowledge_items db))"

definition truthy :: "intent_data option \<Rightarrow> bool" where
  \<comment> \<open>\<open>if intent_data\<close>: neither None nor an empty dict\<close>
  "truthy idata = (case idata of None \<Rightarrow> False | Some d \<Rightarrow> d \<noteq> [])"

definition dict_of :: "intent_data option \<Rightarrow> intent_data" where
  \<comment> \<open>the dict behind a truthy \<open>intent_data\<close>\<close>
  "dict_of idata = (case idata of None \<Rightarrow> [] | Some d \<Rightarrow> d)"

definition item_triple :: "knowledge_item \<Rightarrow> intent_data \<Rightarrow> ustr \<times> ustr \<times> ustr" where
  \<comment> \<open>the three lines that read \<open>domain\<close>, \<open>intent_type\<close> and \<open>model\<close>;
      \<open>x or y\<close> is \<open>y\<close> when \<open>x\<close> is the empty string\<close>
  "item_triple k idata =
     ((if domain k \<noteq> [] then domain k else dict_get idata k_domain s_general_medicine),
      (if intent_type k \<noteq> [] then intent_type k
       else dict_get idata k_intent_type s_diagnostic_consult),
      dict_get (metadata k) k_model s_general_model)"

definition default_stats :: model_stats where
  "default_stats = \<lparr>total_queries = 0, positive_feedback = 0, negative_feedback = 0,
                     avg_score = 0.0\<rparr>"

definition record_performance ::
  "(ustr, model_stats) pydict \<Rightarrow> ustr \<Rightarrow> real \<Rightarrow> (ustr, model_stats) pydict" where
  \<comment> \<open>lines 100-111 of \<open>process_explicit_feedback\<close>\<close>
  "record_performance perf model score =
     (let s0 = dict_get perf model default_stats;
          s1 = s0\<lparr>total_queries := total_queries s0 + 1\<rparr>;
          s2 = (if 0.6 \<le> score then s1\<lparr>positive_feedback := positive_feedback s1 + 1\<rparr>
                else s1\<lparr>negative_feedback := negative_feedback s1 + 1\<rparr>);
          total = positive_feedback s2 + negative_feedback s2;
          s3 = (if 0 < total
                then s2\<lparr>avg_score := real (positive_feedback s2) / real total\<rparr> else s2)
      in AList.update model s3 perf)"

definition succeeded :: "exn + bool \<Rightarrow> bool" where
  "succeeded r = (case r of Inl e \<Rightarrow> False | Inr b \<Rightarrow> b)"

text \<open>
  \<open>t0\<close> is the clock read for the record's timestamp; \<open>flt\<close>, \<open>t1\<close> and \<open>t2\<close> go to
  \<open>update_feedback\<close>. An exception inside the \<open>try\<close> makes the method return False;
  what was changed before it stays changed.
\<close>

definition process_explicit_feedback ::
  "retrieve_by_id_method \<Rightarrow> feedback_optimizer \<Rightarrow> fault \<Rightarrow> ustr \<Rightarrow> ustr \<Rightarrow> real \<Rightarrow> ustr option \<Rightarrow>
   intent_data option \<Rightarrow> time \<Rightarrow> time \<Rightarrow> time \<Rightarrow> bool \<times> feedback_optimizer" where
  "process_explicit_feedback retrieve_by_id self flt knowledge_id user_id score comment idata
       t0 t1 t2 =
     (let self1 = self\<lparr>feedback_history := feedback_history self @
                         [Explicit knowledge_id user_id score comment t0]\<rparr>;
          (res, db) = update_feedback (opt_repository self1) flt knowledge_id user_id score
                        comment t1 t2;
          success = succeeded res;
          self2 = self1\<lparr>opt_repository := db\<rparr>
      in
      if truthy idata \<and> success
      then (case retrieve_by_id of
              None \<Rightarrow> (False, self2)
            | Some rbi \<Rightarrow>
                (case rbi db knowledge_id of
                   [] \<Rightarrow> (success, self2)
                 | k # _ \<Rightarrow>
                     (let (dname, intent, model) = item_triple k (dict_of idata);
                          (ok, mm) = update_confidence (opt_matrix self2) dname intent model score
                      in (success,
                          self2\<lparr>opt_matrix := mm,
                                model_performance :=
                                  record_performance (model_performance self2) model score\<rparr>))))
      else (success, self2))"

definition process_implicit_feedback ::
  "retrieve_by_id_method \<Rightarrow> feedback_optimizer \<Rightarrow> fault \<Rightarrow> ustr \<Rightarrow> ustr \<Rightarrow> ustr \<Rightarrow>
   intent_data option \<Rightarrow> time \<Rightarrow> time \<Rightarrow> time \<Rightarrow> bool \<times> feedback_optimizer" where
  "process_implicit_feedback retrieve_by_id self flt knowledge_id user_id behavior idata
       t0 t1 t2 =
     (let implicit_score = (if has_key implicit_score_mapping behavior
                            then dict_get implicit_score_mapping behavior 0.5 else 0.5);
          self1 = self\<lparr>feedback_history := feedback_history self @
                         [Implicit knowledge_id user_id behavior implicit_score t0]\<rparr>;
          weighted_score = implicit_score * feedback_weights_implicit;
          (res, db) = update_feedback (opt_repository self1) flt knowledge_id user_id
                        weighted_score (Some (s_implicit_comment_prefix @ behavior)) t1 t2;
          success = succeeded res;
          self2 = self1\<lparr>opt_repository := db\<rparr>
      in
      if truthy idata \<and> success
      then (case retrieve_by_id of
              None \<Rightarrow> (False, self2)
            | Some rbi \<Rightarrow>
                (case rbi db knowledge_id of
                   [] \<Rightarrow> (success, self2)
                 | k # _ \<Rightarrow>
                     (let (dname, intent, model) = item_triple k (dict_of idata);
                          (ok, mm) = update_confidence (opt_matrix self2) dname intent model
                                       weighted_score
                      in (success, self2\<lparr>opt_matrix := mm\<rparr>))))
      else (success, self2))"

subsection \<open>\<open>analyze_feedback_trends\<close> and \<open>get_feedback_statistics\<close>\<close>

definition timestamp_of :: "feedback_record \<Rightarrow> time" where
  "timestamp_of f = (case f of Explicit _ _ _ _ t \<Rightarrow> t | Implicit _ _ _ _ t \<Rightarrow> t)"

definition knowledge_id_of :: "feedback_record \<Rightarrow> ustr" where
  "knowledge_id_of f = (case f of Explicit i _ _ _ _ \<Rightarrow> i | Implicit i _ _ _ _ \<Rightarrow> i)"

definition is_explicit :: "feedback_record \<Rightarrow> bool" where
  "is_explicit f = (case f of Explicit _ _ _ _ _ \<Rightarrow> True | Implicit _ _ _ _ _ \<Rightarrow> False)"

definition score_of :: "feedback_record \<Rightarrow> real" where
  \<comment> \<open>\<open>f["score"] if "score" in f else f.get("implicit_score", 0.5)\<close>: an implicit record
      counts with its base score, before the weight\<close>
  "score_of f = (case f of Explicit _ _ s _ _ \<Rightarrow> s | Implicit _ _ _ s _ \<Rightarrow> s)"

definition date_of :: "time \<Rightarrow> int" where
  \<comment> \<open>\<open>timestamp.split("T")[0]\<close>, the date, as a day number\<close>
  "date_of t = t div (24 * 60 * 60 * 1000000)"

definition group_by :: "('a \<Rightarrow> 'k) \<Rightarrow> 'a list \<Rightarrow> ('k, 'a list) pydict" where
  \<comment> \<open>\<open>d[key(x)].append(x)\<close> for each x, on a \<open>defaultdict(list)\<close>\<close>
  "group_by key xs = fold (\<lambda>x d. AList.update (key x) (dict_get d (key x) [] @ [x]) d) xs []"

definition average_scores :: "('k, feedback_record list) pydict \<Rightarrow> ('k, real) pydict" where
  "average_scores groups =
     map (\<lambda>(key, fs). (key, sum_list (map score_of fs) / real (length fs))) groups"

record trend_analysis =
  total_feedback :: nat
  explicit_feedback :: nat
  implicit_feedback :: nat
  daily_scores :: "(int, real) pydict"
  model_scores :: "(ustr, real) pydict"
  domain_scores :: "(ustr, real) pydict"
  overall_score :: real

datatype trend_result = Trend_no_data | Trend_error exn | Trend_success trend_analysis

definition with_item ::
  "(database \<Rightarrow> ustr \<Rightarrow> knowledge_item list) \<Rightarrow> database \<Rightarrow> feedback_record list \<Rightarrow>
   (knowledge_item \<times> feedback_record) list" where
  \<comment> \<open>the feedback records whose item \<open>retrieve_by_id\<close> finds, each with that item\<close>
  "with_item rbi db fs =
     concat (map (\<lambda>f. case rbi db (knowledge_id_of f) of
                          [] \<Rightarrow> []
                        | k # _ \<Rightarrow> [(k, f)]) fs)"

definition analyze_feedback_trends ::
  "retrieve_by_id_method \<Rightarrow> feedback_optimizer \<Rightarrow> int \<Rightarrow> time \<Rightarrow> trend_result" where
  \<comment> \<open>\<open>days\<close> is the window, \<open>now\<close> the clock read\<close>
  "analyze_feedback_trends retrieve_by_id self days now =
     (let start_time = now - days * (24 * 60 * 60 * 1000000);
          recent_feedback = filter (\<lambda>f. start_time \<le> timestamp_of f) (feedback_history self)
      in
      if recent_feedback = [] then Trend_no_data
      else
        (let daily = average_scores (group_by (\<lambda>f. date_of (timestamp_of f)) recent_feedback) in
         case retrieve_by_id of
           None \<Rightarrow> Trend_error (AttributeError ''retrieve_by_id'')
         | Some rbi \<Rightarrow>
             (let found = with_item rbi (opt_repository self) recent_feedback;
                  by_model = group_by (\<lambda>(k, f). dict_get (metadata k) k_model s_general_model) found;
                  by_domain = group_by (\<lambda>(k, f). domain k) found
              in Trend_success
                   \<lparr>total_feedback = length recent_feedback,
                    explicit_feedback = length (filter is_explicit recent_feedback),
                    implicit_feedback = length (filter (\<lambda>f. \<not> is_explicit f) recent_feedback),
                    daily_scores = daily,
                    model_scores = average_scores (map (\<lambda>(key, kfs). (key, map snd kfs)) by_model),
                    domain_scores = average_scores (map (\<lambda>(key, kfs). (key, map snd kfs)) by_domain),
                    overall_score = sum_list (map snd daily) / real (length daily)\<rparr>)))"

record feedback_statistics =
  st_total_feedback :: nat
  st_explicit_feedback :: nat
  st_implicit_feedback :: nat
  st_avg_score :: real
  st_positive_ratio :: real
  st_behavior_counts :: "(ustr, nat) pydict"
  st_model_performance :: "(ustr, model_stats) pydict"

definition behavior_counts :: "feedback_record list \<Rightarrow> (ustr, nat) pydict" where
  "behavior_counts fs =
     fold (\<lambda>f d. case f of
                    Explicit _ _ _ _ _ \<Rightarrow> d
                  | Implicit _ _ b _ _ \<Rightarrow> AList.update b (dict_get d b 0 + 1) d) fs []"

definition get_feedback_statistics :: "feedback_optimizer \<Rightarrow> feedback_statistics option" where
  \<comment> \<open>None is the answer \<open>{"status": "no_data", ...}\<close>\<close>
  "get_feedback_statistics self =
     (let total = length (feedback_history self) in
      if total = 0 then None
      else Some
        \<lparr>st_total_feedback = total,
         st_explicit_feedback = length (filter is_explicit (feedback_history self)),
         st_implicit_feedback = length (filter (\<lambda>f. \<not> is_explicit f) (feedback_history self)),
         st_avg_score = sum_list (map score_of (feedback_history self)) / real total,
         st_positive_ratio =
           real (length (filter (\<lambda>f. 0.6 \<le> score_of f) (feedback_history self))) / real total,
         st_behavior_counts = behavior_counts (feedback_history self),
         st_model_performance = model_performance self\<rparr>)"

subsection \<open>\<open>MatchingMatrix.save_matrix\<close> and \<open>optimize_model_weights\<close>\<close>

text \<open>
  The files \<open>save_matrix\<close> writes are a dict from path to the matrix written.
  \<open>os.makedirs(os.path.dirname(file_path), exist_ok=True)\<close> raises FileNotFoundError
  when the path has no directory part (\<open>os.makedirs('')\<close>); the method catches it,
  prints and returns False. No other failure of the file system is modelled.
\<close>

definition py_dirname :: "ustr \<Rightarrow> ustr" where
  \<comment> \<open>\<open>posixpath.dirname\<close>: up to the last slash, then without trailing slashes unless
      it is all slashes\<close>
  "py_dirname p =
     (let head = rev (dropWhile (\<lambda>c. c \<noteq> 47) (rev p)) in
      if head \<noteq> [] \<and> head \<noteq> replicate (length head) 47
      then rev (dropWhile (\<lambda>c. c = 47) (rev head))
      else head)"

definition save_matrix ::
  "matching_matrix \<Rightarrow> (ustr, conf_matrix) pydict \<Rightarrow> ustr \<Rightarrow> bool \<times> (ustr, conf_matrix) pydict" where
  "save_matrix self files file_path =
     (if py_dirname file_path = [] then (False, files)
      else (True, AList.update file_path (matrix self) files))"

record matrix_getters =
  get_domains :: "(matching_matrix \<Rightarrow> ustr list) option"
  get_intent_types :: "(matching_matrix \<Rightarrow> ustr list) option"
  get_models :: "(matching_matrix \<Rightarrow> ustr \<Rightarrow> ustr \<Rightarrow> ustr list) option"
  get_confidence :: "(matching_matrix \<Rightarrow> ustr \<Rightarrow> ustr \<Rightarrow> ustr \<Rightarrow> real) option"

definition matching_matrix_getters :: matrix_getters where
  \<comment> \<open>the four attributes of a MatchingMatrix object\<close>
  "matching_matrix_getters =
     \<lparr>get_domains = None, get_intent_types = None, get_models = None, get_confidence = None\<rparr>"

definition mock_getters :: matrix_getters where
  \<comment> \<open>the four methods as \<open>MockMatchingMatrix\<close> of the test code defines them;
      \<open>get_intent_types\<close> lists a set, here in the order of first appearance\<close>
  "mock_getters =
     \<lparr>get_domains = Some (\<lambda>mm. map fst (matrix mm)),
      get_intent_types = Some (\<lambda>mm. rev (remdups (rev (concat (map (\<lambda>(d, is). map fst is)
                                                              (matrix mm)))))),
      get_models = Some (\<lambda>mm d i. case map_of (matrix mm) d of
                                     None \<Rightarrow> []
                                   | Some is \<Rightarrow> (case map_of is i of
                                                  None \<Rightarrow> []
                                                | Some ms \<Rightarrow> map fst ms)),
      get_confidence = Some (\<lambda>mm d i m. case confidence_of (matrix mm) d i m of
                                           None \<Rightarrow> 0.0
                                         | Some c \<Rightarrow> c)\<rparr>"

text \<open>
  The three nested loops. A call of a missing method raises before any
  \<open>update_confidence\<close> of the same run has happened, so a raise leaves the matrix as it
  was.
\<close>

fun optimize_models ::
  "matrix_getters \<Rightarrow> (ustr, model_stats) pydict \<Rightarrow> ustr \<Rightarrow> ustr \<Rightarrow> ustr list \<Rightarrow>
   matching_matrix \<Rightarrow> exn + matching_matrix" where
  "optimize_models g model_stats d i [] mm = Inr mm"
| "optimize_models g model_stats d i (model # rest) mm =
     (case map_of model_stats model of
        None \<Rightarrow> optimize_models g model_stats d i rest mm
      | Some stats \<Rightarrow>
          if 10 \<le> total_queries stats
          then (case get_confidence g of
                  None \<Rightarrow> Inl (AttributeError ''get_confidence'')
                | Some gc \<Rightarrow>
                    (let current_confidence = gc mm d i model;
                         new_confidence = current_confidence * 0.8 + avg_score stats * 0.2
                     in optimize_models g model_stats d i rest
                          (snd (update_confidence mm d i model new_confidence))))
          else optimize_models g model_stats d i rest mm)"

fun optimize_intents ::
  "matrix_getters \<Rightarrow> (ustr, model_stats) pydict \<Rightarrow> ustr \<Rightarrow> ustr list \<Rightarrow>
   matching_matrix \<Rightarrow> exn + matching_matrix" where
  "optimize_intents g model_stats d [] mm = Inr mm"
| "optimize_intents g model_stats d (i # rest) mm =
     (case get_models g of
        None \<Rightarrow> Inl (AttributeError ''get_models'')
      | Some gm \<Rightarrow>
          then_do (optimize_models g model_stats d i (gm mm d i) mm)
            (\<lambda>mm. optimize_intents g model_stats d rest mm))"

fun optimize_domains ::
  "matrix_getters \<Rightarrow> (ustr, model_stats) pydict \<Rightarrow> ustr list \<Rightarrow> ustr list \<Rightarrow>
   matching_matrix \<Rightarrow> exn + matching_matrix" where
  "optimize_domains g model_stats [] intent_types mm = Inr mm"
| "optimize_domains g model_stats (d # rest) intent_types mm =
     then_do (optimize_intents g model_stats d intent_types mm)
       (\<lambda>mm. optimize_domains g model_stats rest intent_types mm)"

definition optimize_model_weights ::
  "matrix_getters \<Rightarrow> feedback_optimizer \<Rightarrow> (ustr, conf_matrix) pydict \<Rightarrow>
   bool \<times> feedback_optimizer \<times> (ustr, conf_matrix) pydict" where
  "optimize_model_weights g self files =
     (let model_stats = model_performance self in
      if model_stats = [] then (False, self, files)
      else
        (case (case get_domains g of
                 None \<Rightarrow> Inl (AttributeError ''get_domains'')
               | Some gd \<Rightarrow>
                   (case get_intent_types g of
                      None \<Rightarrow> Inl (AttributeError ''get_intent_types'')
                    | Some gi \<Rightarrow>
                        optimize_domains g model_stats (gd (opt_matrix self))
                          (gi (opt_matrix self)) (opt_matrix self))) of
           Inl e \<Rightarrow> (False, self, files)
         | Inr mm \<Rightarrow>
             (True, self\<lparr>opt_matrix := mm\<rparr>,
              snd (save_matrix mm files s_updated_matrix_json))))"

subsection \<open>Example states\<close>

definition id_1 :: ustr where
  \<comment> \<open>"ki\_1"\<close>
  "id_1 = [107, 105, 95, 49]"

definition id_2 :: ustr where
  \<comment> \<open>"ki\_2"\<close>
  "id_2 = [107, 105, 95, 50]"

definition id_9 :: ustr where
  \<comment> \<open>"ki\_9", the id of no item\<close>
  "id_9 = [107, 105, 95, 57]"

definition user_u :: ustr where
  \<comment> \<open>"u"\<close>
  "user_u = [117]"

definition example_item :: "ustr \<Rightarrow> real \<Rightarrow> time \<Rightarrow> knowledge_item" where
  \<comment> \<open>an item of (TCM, diagnostic consult) answered by the ZhongJing model, as \<open>store\<close>
      would write it at time 0\<close>
  "example_item i qs ex =
     \<lparr>item_id = i, query = [], original_response = [], cleaned_response = [],
      domain = s_tcm, intent_type = s_diagnostic_consult, tier = determine_tier qs,
      quality_score = qs, feedback_score = 0, usage_count = 0, created_at = 0,
      updated_at = 0, expires_at = ex, metadata = [(k_model, s_zhongjing_model)]\<rparr>"

definition example_database :: database where
  \<comment> \<open>item 1 expires at time 5, item 2 at time 100; each has a keyword row, item 1 a
      feedback row\<close>
  "example_database =
     \<lparr>knowledge_items = [example_item id_1 0.9 5, example_item id_2 0.9 100],
      keywords_rows = [\<lparr>kw_keyword = [7, 7], kw_knowledge_id = id_1, kw_weight = 0.5\<rparr>,
                       \<lparr>kw_keyword = [7, 7], kw_knowledge_id = id_2, kw_weight = 0.5\<rparr>],
      user_feedback = [\<lparr>fb_id = 1, fb_knowledge_id = id_1, fb_user_id = user_u, fb_score = 0.9,
                         fb_comment = None, fb_created_at = 1\<rparr>],
      feedback_seq = 1\<rparr>"

definition one_item_database :: database where
  "one_item_database =
     \<lparr>knowledge_items = [example_item id_1 0.9 100], keywords_rows = [], user_feedback = [],
      feedback_seq = 0\<rparr>"

definition example_optimizer :: feedback_optimizer where
  \<comment> \<open>the objects as main.py wires them, the repository holding one item\<close>
  "example_optimizer = new_feedback_optimizer new_matching_matrix one_item_database"

definition mock_matrix :: conf_matrix where
  \<comment> \<open>the matrix of \<open>MockMatchingMatrix\<close> in the test code\<close>
  "mock_matrix =
     [(s_tcm, [(s_diagnostic_consult, [(s_zhongjing_model, 0.9), (s_general_model, 0.7)])]),
      (s_western, [(s_drug_query, [(s_general_model, 0.85), (s_tcmchat, 0.65)])])]"

definition ten_positive :: "(ustr, model_stats) pydict" where
  \<comment> \<open>the general model after ten feedbacks, all positive\<close>
  "ten_positive =
     [(s_general_model,
       \<lparr>total_queries = 10, positive_feedback = 10, negative_feedback = 0, avg_score = 1\<rparr>)]"

definition ten_positive_optimizer :: feedback_optimizer where
  \<comment> \<open>an optimizer whose matrix is the mock's and whose statistics are \<open>ten_positive\<close>\<close>
  "ten_positive_optimizer =
     \<lparr>opt_matrix = \<lparr>matrix = mock_matrix, history = [], model_call_count = []\<rparr>,
      opt_repository = empty_database, feedback_history = [], model_performance = ten_positive\<rparr>"

section \<open>Properties of the confidence table\<close>

lemma map_of_update_same: "map_of (AList.update k v al) k = Some v"
  by (simp add: update_conv')



lemmas literal_defs =
  s_general_medicine_def s_diagnostic_consult_def s_general_model_def s_zhongjing_model_def
  s_tcmchat_def s_high_def s_low_def s_tcm_def s_western_def s_pharmacology_def
  s_nutrition_def s_drug_query_def s_treatment_plan_def s_health_advice_def s_medium_def









section \<open>Properties of the router\<close>

lemma registered_three:
  assumes "map fst (models self) = [s_zhongjing_model, s_tcmchat, s_general_model]"
  shows "\<exists>x1 x2 x3.
    models self = [(s_zhongjing_model, x1), (s_tcmchat, x2), (s_general_model, x3)]"
  using assms by (auto simp: map_eq_Cons_conv)

lemma names_distinct:
  "s_zhongjing_model \<noteq> s_tcmchat" "s_zhongjing_model \<noteq> s_general_model"
  "s_tcmchat \<noteq> s_general_model" "s_tcmchat \<noteq> s_zhongjing_model"
  "s_general_model \<noteq> s_zhongjing_model" "s_general_model \<noteq> s_tcmchat"
  by (simp_all add: literal_defs)

text \<open>
  Claim C6. The router holds the three adapters its constructor registers. When
  \<open>get_best_model\<close> returns a registered model \<open>b\<close> with confidence at least 0.7,
  \<open>route\<close> returns a text and never raises, whatever the adapters do:
  if \<open>b\<close>'s adapter answers, that answer is returned and \<open>b\<close> is the only adapter
  called (its call counter grows by one, the others keep theirs);
  if it raises, the first registered name other than \<open>b\<close> is called once as the
  fallback, and the result is its answer, or the fixed apology when it raises too.
\<close>

theorem route_direct_path:
  assumes regs: "map fst (models self) = [s_zhongjing_model, s_tcmchat, s_general_model]"
    and best: "get_best_model (matching self) (dict_get idata k_domain s_general_medicine)
                 (dict_get idata k_intent_type s_diagnostic_consult)
                 (dict_get idata k_urgency s_low) = Inr ((b, c), mm)"
    and conf: "0.7 \<le> c"
    and reg_b: "map_of (models self) b = Some a"
  shows "\<exists>resp self'.
           route collab self q idata = (Inr resp, self')
         \<and> matching self' = mm
         \<and> (case respond a q idata of
               Inr r \<Rightarrow> resp = r \<and> (\<forall>n. calls self' n = calls self n + (if n = b then 1 else 0))
             | Inl e \<Rightarrow>
                 (\<exists>fb a2. fb = hd (filter (\<lambda>n. n \<noteq> b) (map fst (models self)))
                    \<and> fb \<noteq> b
                    \<and> map_of (models self) fb = Some a2
                    \<and> (\<forall>n. calls self' n = calls self n + (if n = b \<or> n = fb then 1 else 0))
                    \<and> resp = (case respond a2 q idata of
                                Inr r2 \<Rightarrow> r2 | Inl e2 \<Rightarrow> s_apology)))"
proof -
  from registered_three [OF regs] obtain x1 x2 x3 where
    ms: "models self = [(s_zhongjing_model, x1), (s_tcmchat, x2), (s_general_model, x3)]"
    by blast
  have nc: "\<not> c < 0.7" using conf by simp
  from reg_b ms consider
      (zj) "b = s_zhongjing_model" "a = x1"
    | (tc) "b = s_tcmchat" "a = x2"
    | (gm) "b = s_general_model" "a = x3"
    by (auto split: if_splits)
  then show ?thesis
  proof cases
    case zj
    show ?thesis
      using best nc
      by (cases "respond x1 q idata"; cases "respond x2 q idata")
         (simp_all add: route_def Let_def zj ms infer_def fallback_inference_def calls_def
            names_distinct)
  next
    case tc
    show ?thesis
      using best nc
      by (cases "respond x2 q idata"; cases "respond x1 q idata")
         (simp_all add: route_def Let_def tc ms infer_def fallback_inference_def calls_def
            names_distinct)
  next
    case gm
    show ?thesis
      using best nc
      by (cases "respond x3 q idata"; cases "respond x1 q idata")
         (simp_all add: route_def Let_def gm ms infer_def fallback_inference_def calls_def
            names_distinct)
  qed
qed

text \<open>
  The witness: the default table, a query for (TCM, diagnostic consult, urgency medium),
  so the best model is the ZhongJing model with confidence 0.95; its adapter raises, the
  TCMChat adapter (the first other name) answers.
\<close>

theorem route_direct_path_witness:
  "fst (route (\<lambda>s q i. (Inr [], s))
          (new_model_router new_matching_matrix
             (\<lambda>q i. Inl (InferenceError [])) (\<lambda>q i. Inr [1]) (\<lambda>q i. Inr [2]))
          [0]
          [(k_domain, s_tcm), (k_intent_type, s_diagnostic_consult), (k_urgency, s_medium)])
   = Inr [1]"
proof -
  let ?self = "new_model_router new_matching_matrix
             (\<lambda>q i. Inl (InferenceError [])) (\<lambda>q i. Inr [1]) (\<lambda>q i. Inr [2])"
  let ?idata = "[(k_domain, s_tcm), (k_intent_type, s_diagnostic_consult), (k_urgency, s_medium)]"
  let ?mm = "\<lparr>matrix = default_matrix,
              history = [Selection s_tcm s_diagnostic_consult s_zhongjing_model 0.95 s_medium],
              model_call_count = [(s_zhongjing_model, 1)]\<rparr>"
  have regs: "map fst (models ?self) = [s_zhongjing_model, s_tcmchat, s_general_model]"
    by (simp add: new_model_router_def)
  have keys: "dict_get ?idata k_domain s_general_medicine = s_tcm"
    "dict_get ?idata k_intent_type s_diagnostic_consult = s_diagnostic_consult"
    "dict_get ?idata k_urgency s_low = s_medium"
    by (simp_all add: dict_get_def k_domain_def k_intent_type_def k_urgency_def)
  have sel: "select_models default_matrix s_tcm s_diagnostic_consult
      = Inr (s_tcm, s_diagnostic_consult, model_row 0.95 0.85 0.70)"
    by (simp add: select_models_def default_matrix_def has_key_def literal_defs)
  have best: "get_best_model (matching ?self) (dict_get ?idata k_domain s_general_medicine)
                 (dict_get ?idata k_intent_type s_diagnostic_consult)
                 (dict_get ?idata k_urgency s_low) = Inr ((s_zhongjing_model, 0.95), ?mm)"
    unfolding keys
    by (simp add: get_best_model_def new_model_router_def new_matching_matrix_def sel
        model_row_def py_max_def count_call_def dict_get_def s_high_def s_medium_def)
  have conf: "(0.7 :: real) \<le> 0.95" by simp
  have reg_b: "map_of (models ?self) s_zhongjing_model
      = Some (new_adapter (\<lambda>q i. Inl (InferenceError [])))"
    by (simp add: new_model_router_def)
  from route_direct_path [OF regs best conf reg_b, of "\<lambda>s q i. (Inr [], s)" "[0]"]
  obtain resp self' where
    r: "route (\<lambda>s q i. (Inr [], s)) ?self [0] ?idata = (Inr resp, self')"
    and f: "\<exists>fb a2. fb = hd (filter (\<lambda>n. n \<noteq> s_zhongjing_model) (map fst (models ?self)))
             \<and> fb \<noteq> s_zhongjing_model
             \<and> map_of (models ?self) fb = Some a2
             \<and> (\<forall>n. calls self' n = calls ?self n
                      + (if n = s_zhongjing_model \<or> n = fb then 1 else 0))
             \<and> resp = (case respond a2 [0] ?idata of Inr r2 \<Rightarrow> r2 | Inl e2 \<Rightarrow> s_apology)"
    by (auto simp: new_adapter_def)
  from f have "resp = [1]"
    by (auto simp: new_model_router_def new_adapter_def names_distinct)
  with r show ?thesis by simp
qed

section \<open>Properties of the repository\<close>

lemma then_do_simps [simp]:
  "then_do (Inl e) f = Inl e" "then_do (Inr x) f = f x"
  by (simp_all add: then_do_def)

lemma storage_call_None [simp]: "storage_call None = Inr None"
  by (simp add: storage_call_def)

lemma storage_call_Some:
  "storage_call (Some n) = (if n = 0 then Inl OperationalError else Inr (Some (n - 1)))"
  by (simp add: storage_call_def)

lemma simple_tokenize_raises: "simple_tokenize alnum text = Inl (NameError ''re'')"
  by (simp add: simple_tokenize_def global_name_def module_imports_def)

lemma extract_keywords_raises: "extract_keywords alnum q response = Inl (NameError ''re'')"
  by (simp add: extract_keywords_def simple_tokenize_raises)

lemmas example_ids = id_1_def id_2_def id_9_def user_u_def

text \<open>
  The body of the tokenizer, were it reached: three CJK characters give their two 2-grams
  and their 3-gram, a Latin word stays whole, punctuation separates.
\<close>

lemma tokenize_text_example:
  "tokenize_text (\<lambda>c. c \<noteq> 44) [19968, 19969, 19970, 44, 97, 98] =
     [[19968, 19969], [19968, 19969, 19970], [19969, 19970], [97, 98]]"
  by (simp add: tokenize_text_def strip_punctuation_def is_space_def is_cjk_def ngrams_def
      upt_rec)

text \<open>
  Claim C1 does not hold of the code. On a storage layer that does not fail, \<open>store\<close>
  raises for every item, query and quality score: the INSERT of the item raises
  IntegrityError when the id is taken, and otherwise \<open>_extract_keywords\<close> reaches
  \<open>_simple_tokenize\<close>, whose first statement reads the name \<open>re\<close> that the module
  never imports, so NameError leaves \<open>store\<close> before the commit and the database is as
  it was. \<open>retrieve\<close> tokenizes the query first, catches the same NameError and returns
  the empty list, whatever the database holds.
\<close>

theorem store_raises_name_error:
  "store alnum self None payload q idata qscore ts rnd t1 t2 =
     (Inl (if list_ex (\<lambda>k. item_id k = generate_id ts rnd) (knowledge_items self)
           then IntegrityError else NameError ''re''), self)
   \<and> retrieve alnum self flt q idata limit t3 t4 = (Inr [], self)"
  by (simp add: store_def store_body_def Let_def insert_item_def extract_keywords_raises
      retrieve_def retrieve_body_def simple_tokenize_raises)

text \<open>
  Claim C2 does not hold of the code as stated: with a storage layer whose first call
  (\<open>sqlite3.connect\<close>) fails, the body of \<open>cleanup_expired\<close> raises OperationalError
  and the method returns 0.
\<close>

theorem cleanup_expired_swallows_storage_error:
  "cleanup_expired_body empty_database (Some 0) 0 0 = Inl OperationalError
   \<and> cleanup_expired empty_database (Some 0) 0 0 = (Inr 0, empty_database)"
  by (simp add: cleanup_expired_def cleanup_expired_body_def storage_call_Some)

text \<open>
  Claim C2 as amended. \<open>store\<close> raises again what its body raises, and its body raises
  the storage error when the connect or the first INSERT fails. \<open>retrieve\<close>,
  \<open>update_feedback\<close> and \<open>cleanup_expired\<close> return the empty list, False and 0
  when their body raises, with the database as it was; the bodies of the last two raise
  the storage error when one of their first three (four) storage calls fails.
\<close>

theorem storage_errors_by_operation:
  "(n < 2 \<longrightarrow>
      store_body alnum self (Some n) payload q idata qscore ts rnd t1 t2 = Inl OperationalError)
   \<and> (store_body alnum self flt payload q idata qscore ts rnd t1 t2 = Inl e1 \<longrightarrow>
      store alnum self flt payload q idata qscore ts rnd t1 t2 = (Inl e1, self))
   \<and> (retrieve_body alnum self flt q idata limit t1 t2 = Inl e2 \<longrightarrow>
      retrieve alnum self flt q idata limit t1 t2 = (Inr [], self))
   \<and> (n < 3 \<longrightarrow>
      update_feedback_body self (Some n) kid uid score comment t1 t2 = Inl OperationalError)
   \<and> (update_feedback_body self flt kid uid score comment t1 t2 = Inl e3 \<longrightarrow>
      update_feedback self flt kid uid score comment t1 t2 = (Inr False, self))
   \<and> (n < 4 \<longrightarrow> cleanup_expired_body self (Some n) t1 t2 = Inl OperationalError)
   \<and> (cleanup_expired_body self flt t1 t2 = Inl e4 \<longrightarrow>
      cleanup_expired self flt t1 t2 = (Inr 0, self))"
proof -
  have s: "n < 2 \<Longrightarrow>
      store_body alnum self (Some n) payload q idata qscore ts rnd t1 t2 = Inl OperationalError"
    by (cases n) (auto simp: store_body_def Let_def storage_call_Some)
  have u: "n < 3 \<Longrightarrow>
      update_feedback_body self (Some n) kid uid score comment t1 t2 = Inl OperationalError"
    by (auto simp: update_feedback_body_def Let_def storage_call_Some)
  have c: "n < 4 \<Longrightarrow> cleanup_expired_body self (Some n) t1 t2 = Inl OperationalError"
    by (auto simp: cleanup_expired_body_def Let_def storage_call_Some)
  show ?thesis
    using s u c
    by (simp add: store_def retrieve_def update_feedback_def cleanup_expired_def)
qed

theorem storage_errors_by_operation_witness:
  "store (\<lambda>c. True) example_database (Some 0) \<lparr>p_original_response = [], p_cleaned_response = [],
       p_metadata = []\<rparr> [] [] 0.9 0 [] 0 0 = (Inl OperationalError, example_database)
   \<and> retrieve (\<lambda>c. True) example_database (Some 0) [] [] 5 0 0 = (Inr [], example_database)
   \<and> update_feedback example_database (Some 0) id_1 user_u 0.9 None 0 0
       = (Inr False, example_database)
   \<and> cleanup_expired example_database (Some 0) 0 0 = (Inr 0, example_database)"
proof -
  let ?p = "\<lparr>p_original_response = [], p_cleaned_response = [], p_metadata = []\<rparr>"
  note w = storage_errors_by_operation [of 0 "\<lambda>c. True" example_database ?p "[]" "[]" "0.9"
      0 "[]" 0 0 "Some 0" OperationalError 5 "NameError ''re''" id_1 user_u "0.9" None
      OperationalError OperationalError]
  have rb: "retrieve_body (\<lambda>c. True) example_database (Some 0) [] [] 5 0 0
      = Inl (NameError ''re'')"
    by (simp add: retrieve_body_def Let_def simple_tokenize_raises)
  show ?thesis
    using w rb by simp
qed

text \<open>
  What \<open>cleanup_expired\<close> does on a storage layer that does not fail: it returns the
  number of items that had expired at the first clock read and removes from
  \<open>knowledge_items\<close> the items that have expired at the second; the other two tables are
  as they were.
\<close>

lemma cleanup_expired_effect:
  "cleanup_expired self None t1 t2 =
     (Inr (length (filter (\<lambda>k. expires_at k < t1) (knowledge_items self))),
      self\<lparr>knowledge_items := filter (\<lambda>k. \<not> expires_at k < t2) (knowledge_items self)\<rparr>)"
  by (simp add: cleanup_expired_def cleanup_expired_body_def Let_def delete_expired_def
      connection_foreign_keys_def)

text \<open>
  Claim C3 does not hold of the code. In the example database item 1 has expired at
  time 10 and item 2 has not. \<open>cleanup_expired\<close> returns 1 and deletes item 1, and the
  keyword row and the feedback row of item 1 are still there: the cascade is declared in
  the schema, and the connection never turns foreign keys on. With the two clock reads
  at 4 and 10 the same item is deleted and the count returned is 0.
\<close>

theorem cleanup_expired_leaves_child_rows:
  "cleanup_expired example_database None 10 10 =
     (Inr 1, example_database\<lparr>knowledge_items := [example_item id_2 0.9 100]\<rparr>)
   \<and> keywords_rows (snd (cleanup_expired example_database None 10 10))
       = [\<lparr>kw_keyword = [7, 7], kw_knowledge_id = id_1, kw_weight = 0.5\<rparr>,
          \<lparr>kw_keyword = [7, 7], kw_knowledge_id = id_2, kw_weight = 0.5\<rparr>]
   \<and> map fb_knowledge_id (user_feedback (snd (cleanup_expired example_database None 10 10)))
       = [id_1]
   \<and> cleanup_expired example_database None 4 10 =
     (Inr 0, example_database\<lparr>knowledge_items := [example_item id_2 0.9 100]\<rparr>)"
  by (simp add: cleanup_expired_effect example_database_def example_item_def)

text \<open>
  What \<open>update_feedback\<close> does for a stored id on a storage layer that does not fail.
\<close>

lemma update_feedback_effect:
  assumes "find (\<lambda>k. item_id k = kid) (knowledge_items self) = Some row"
  shows "update_feedback self None kid uid score comment t1 t2 =
     (let f = (if 0 < feedback_score row then feedback_score row * 0.7 + score * 0.3 else score);
          tr = determine_tier (quality_score row * 0.6 + f * 0.4)
      in (Inr True,
          self\<lparr>user_feedback := user_feedback self @
                  [\<lparr>fb_id = feedback_seq self + 1, fb_knowledge_id = kid, fb_user_id = uid,
                    fb_score = score, fb_comment = comment, fb_created_at = t1\<rparr>],
               feedback_seq := feedback_seq self + 1,
               knowledge_items :=
                 map (\<lambda>k. if item_id k = kid
                           then k\<lparr>feedback_score := f, tier := tr, updated_at := t1,
                                  expires_at := (if tr \<noteq> tier row then t2 + expiry_times tr
                                                 else expires_at k)\<rparr>
                           else k) (knowledge_items self)\<rparr>))"
  using assms
  by (auto simp: update_feedback_def update_feedback_body_def Let_def intro!: database.equality)

text \<open>
  Claim C7 does not hold of the code. The item has no feedback. A first feedback of
  score 0 is stored (a feedback row is appended, the feedback score becomes 0); the
  second feedback, of score 1, is then not the first for the item, and the claim's blend
  gives \<open>0.7 * 0 + 0.3 * 1 = 0.3\<close>. The code tests \<open>feedback_score > 0\<close> to tell a
  first feedback from a later one, takes the second for a first and stores 1.
\<close>

theorem update_feedback_after_zero_score:
  "fst (update_feedback one_item_database None id_1 user_u 0 None 1 1) = Inr True
   \<and> map fb_score (user_feedback (snd
         (update_feedback one_item_database None id_1 user_u 0 None 1 1))) = [0]
   \<and> fst (update_feedback (snd (update_feedback one_item_database None id_1 user_u 0 None 1 1))
             None id_1 user_u 1 None 2 2) = Inr True
   \<and> map feedback_score (knowledge_items (snd
          (update_feedback (snd (update_feedback one_item_database None id_1 user_u 0 None 1 1))
             None id_1 user_u 1 None 2 2))) = [1]"
  by (simp add: update_feedback_def update_feedback_body_def Let_def one_item_database_def
      example_item_def determine_tier_def tier_thresholds_core_def tier_thresholds_extended_def
      expiry_times_def)

section \<open>Properties of the feedback optimizer\<close>

lemmas optimizer_literals =
  k_model_def k_domain_def k_intent_type_def k_urgency_def s_click_def s_copy_def s_share_def
  s_bookmark_def s_follow_recommendation_def s_ignore_def s_quick_exit_def

lemma bookmark_score:
  "has_key implicit_score_mapping s_bookmark"
  "dict_get implicit_score_mapping s_bookmark d = 0.9"
  by (simp_all add: implicit_score_mapping_def dict_get_def has_key_def optimizer_literals)

lemma bookmark_update_feedback:
  "update_feedback one_item_database None id_1 user_u (27 / 100) c 1 1 =
     (Inr True,
      \<lparr>knowledge_items = [(example_item id_1 0.9 100)\<lparr>feedback_score := 0.27, tier := Temporary,
                              updated_at := 1, expires_at := 1 + expiry_times Temporary\<rparr>],
       keywords_rows = [],
       user_feedback = [\<lparr>fb_id = 1, fb_knowledge_id = id_1, fb_user_id = user_u, fb_score = 0.27,
                          fb_comment = c, fb_created_at = 1\<rparr>],
       feedback_seq = 1\<rparr>)"
  by (simp add: update_feedback_def update_feedback_body_def Let_def one_item_database_def
      example_item_def determine_tier_def tier_thresholds_core_def tier_thresholds_extended_def)

text \<open>
  Claim C5 does not hold of the code as main.py wires it. The repository holds item 1, of
  (TCM, diagnostic consult, ZhongJing model), with no feedback. For the behaviour
  "bookmark" the weighted score is \<open>0.9 * 0.3 = 0.27\<close>, \<open>update_feedback\<close> stores
  it (the item's feedback score becomes 0.27), and then the call of \<open>retrieve_by_id\<close>,
  which KnowledgeRepository does not define, raises AttributeError: the method returns
  False and the confidence table is never updated.
\<close>

theorem process_implicit_bookmark:
  "fst (process_implicit_feedback repository_retrieve_by_id example_optimizer None id_1 user_u
          s_bookmark (Some [(k_domain, s_tcm)]) 1 1 1) = False
   \<and> map feedback_score (knowledge_items (opt_repository (snd
         (process_implicit_feedback repository_retrieve_by_id example_optimizer None id_1 user_u
            s_bookmark (Some [(k_domain, s_tcm)]) 1 1 1)))) = [0.27]
   \<and> opt_matrix (snd (process_implicit_feedback repository_retrieve_by_id example_optimizer
         None id_1 user_u s_bookmark (Some [(k_domain, s_tcm)]) 1 1 1)) = new_matching_matrix"
  by (simp add: process_implicit_feedback_def Let_def bookmark_score example_optimizer_def
      new_feedback_optimizer_def feedback_weights_implicit_def bookmark_update_feedback
      succeeded_def truthy_def repository_retrieve_by_id_def)


lemma update_confidence_known:
  assumes "confidence_of (matrix self) d i m = Some old"
  shows "fst (update_confidence self d i m fb) = True"
    and "confidence_of (matrix (snd (update_confidence self d i m fb))) d i m
           = Some (old * 0.9 + fb * 0.1)"
proof -
  from assms obtain intents ms where
    a: "map_of (matrix self) d = Some intents"
    and b: "map_of intents i = Some ms"
    and c: "map_of ms m = Some old"
    by (auto simp: confidence_of_def split: option.splits)
  have r: "update_confidence self d i m fb =
      (True, self\<lparr>matrix := AList.update d (AList.update i
                 (AList.update m (old * 0.9 + fb * 0.1) ms) intents) (matrix self),
               history := history self @ [Update d i m old (old * 0.9 + fb * 0.1)]\<rparr>)"
    by (simp add: update_confidence_def a b c Let_def)
  show "fst (update_confidence self d i m fb) = True"
    by (simp add: r)
  show "confidence_of (matrix (snd (update_confidence self d i m fb))) d i m
           = Some (old * 0.9 + fb * 0.1)"
    by (simp add: r confidence_of_def map_of_update_same)
qed

lemma default_zhongjing_tcm:
  "confidence_of (matrix new_matching_matrix) s_tcm s_diagnostic_consult s_zhongjing_model
     = Some 0.95"
  by (simp add: confidence_of_def new_matching_matrix_def default_matrix_def model_row_def
      literal_defs)

lemma example_item_triple:
  "item_triple ((example_item i qs ex)\<lparr>feedback_score := f, tier := tr, updated_at := u,
                  expires_at := e\<rparr>) d
     = (s_tcm, s_diagnostic_consult, s_zhongjing_model)"
  by (simp add: item_triple_def example_item_def dict_get_def s_tcm_def s_diagnostic_consult_def)

text \<open>
  With a repository object that has \<open>retrieve_by_id\<close> (the mock's), the same call
  returns True, stores 0.27 and passes 0.27 to \<open>update_confidence\<close> for the item's
  triple.
\<close>

lemma process_implicit_bookmark_mock:
  "fst (process_implicit_feedback mock_retrieve_by_id example_optimizer None id_1 user_u
          s_bookmark (Some [(k_domain, s_tcm)]) 1 1 1) = True
   \<and> map feedback_score (knowledge_items (opt_repository (snd
         (process_implicit_feedback mock_retrieve_by_id example_optimizer None id_1 user_u
            s_bookmark (Some [(k_domain, s_tcm)]) 1 1 1)))) = [0.27]
   \<and> confidence_of (matrix (opt_matrix (snd (process_implicit_feedback mock_retrieve_by_id
         example_optimizer None id_1 user_u s_bookmark (Some [(k_domain, s_tcm)]) 1 1 1))))
         s_tcm s_diagnostic_consult s_zhongjing_model = Some (0.95 * 0.9 + 0.27 * 0.1)"
proof -
  have item: "item_id (example_item id_1 0.9 100) = id_1"
    by (simp add: example_item_def)
  have run: "process_implicit_feedback mock_retrieve_by_id example_optimizer None id_1 user_u
          s_bookmark (Some [(k_domain, s_tcm)]) 1 1 1 =
     (True,
      \<lparr>opt_matrix = snd (update_confidence new_matching_matrix s_tcm s_diagnostic_consult
                            s_zhongjing_model 0.27),
       opt_repository =
         \<lparr>knowledge_items = [(example_item id_1 0.9 100)\<lparr>feedback_score := 0.27,
              tier := Temporary, updated_at := 1, expires_at := 1 + expiry_times Temporary\<rparr>],
          keywords_rows = [],
          user_feedback = [\<lparr>fb_id = 1, fb_knowledge_id = id_1, fb_user_id = user_u,
              fb_score = 0.27, fb_comment = Some (s_implicit_comment_prefix @ s_bookmark),
              fb_created_at = 1\<rparr>],
          feedback_seq = 1\<rparr>,
       feedback_history = [Implicit id_1 user_u s_bookmark 0.9 1],
       model_performance = []\<rparr>)"
    by (simp add: process_implicit_feedback_def Let_def bookmark_score example_optimizer_def
        new_feedback_optimizer_def feedback_weights_implicit_def bookmark_update_feedback
        succeeded_def truthy_def mock_retrieve_by_id_def item example_item_triple
        split_def)
  show ?thesis
    using update_confidence_known(2) [OF default_zhongjing_tcm, of "0.27"]
    by (simp add: run)
qed

text \<open>
  Both methods append one record to the history before anything else, whatever the
  repository object, the storage layer and the arguments, and whatever they return.
\<close>

lemma process_explicit_history:
  "feedback_history (snd (process_explicit_feedback rbi self flt kid uid score comment idata
       t0 t1 t2)) = feedback_history self @ [Explicit kid uid score comment t0]"
  by (auto simp: process_explicit_feedback_def Let_def split: prod.splits option.splits list.splits)

lemma process_implicit_history:
  "feedback_history (snd (process_implicit_feedback rbi self flt kid uid b idata t0 t1 t2))
     = feedback_history self @
       [Implicit kid uid b (if has_key implicit_score_mapping b
                            then dict_get implicit_score_mapping b 0.5 else 0.5) t0]"
  by (auto simp: process_implicit_feedback_def Let_def split: prod.splits option.splits list.splits)

lemma statistics_count:
  "feedback_history self \<noteq> [] \<Longrightarrow>
     map_option st_total_feedback (get_feedback_statistics self) = Some (length (feedback_history self))"
  by (simp add: get_feedback_statistics_def Let_def)

lemma unknown_id_update_feedback:
  "update_feedback one_item_database None id_9 uid score c t1 t2 = (Inr False, one_item_database)"
  by (simp add: update_feedback_def update_feedback_body_def Let_def one_item_database_def
      example_item_def example_ids)

lemma unknown_id_run:
  "process_explicit_feedback rbi example_optimizer None id_9 user_u 0.9 None None 1 1 1 =
     (False, example_optimizer\<lparr>feedback_history := [Explicit id_9 user_u 0.9 None 1]\<rparr>)"
  by (simp add: process_explicit_feedback_def Let_def example_optimizer_def
      new_feedback_optimizer_def unknown_id_update_feedback succeeded_def truthy_def)

text \<open>
  Claim C10 holds of the code in part. The first half is the two lemmas above. For the
  second half, an explicit feedback for an id the repository does not know returns False
  and changes neither the repository nor the confidence table; its record is in the
  history and \<open>get_feedback_statistics\<close> counts it. \<open>analyze_feedback_trends\<close> does
  not count it, or anything: as main.py wires the objects it calls \<open>retrieve_by_id\<close>,
  which KnowledgeRepository does not define, and answers with the error status whenever
  the window holds a record.
\<close>

theorem unapplied_feedback_in_history:
  "fst (process_explicit_feedback repository_retrieve_by_id example_optimizer None id_9 user_u
          0.9 None None 1 1 1) = False
   \<and> feedback_history (snd (process_explicit_feedback repository_retrieve_by_id
         example_optimizer None id_9 user_u 0.9 None None 1 1 1))
       = [Explicit id_9 user_u 0.9 None 1]
   \<and> opt_repository (snd (process_explicit_feedback repository_retrieve_by_id
         example_optimizer None id_9 user_u 0.9 None None 1 1 1)) = one_item_database
   \<and> opt_matrix (snd (process_explicit_feedback repository_retrieve_by_id
         example_optimizer None id_9 user_u 0.9 None None 1 1 1)) = new_matching_matrix
   \<and> map_option st_total_feedback (get_feedback_statistics (snd (process_explicit_feedback
         repository_retrieve_by_id example_optimizer None id_9 user_u 0.9 None None 1 1 1)))
       = Some 1
   \<and> analyze_feedback_trends repository_retrieve_by_id (snd (process_explicit_feedback
         repository_retrieve_by_id example_optimizer None id_9 user_u 0.9 None None 1 1 1)) 30 2
       = Trend_error (AttributeError ''retrieve_by_id'')"
  unfolding unknown_id_run [of repository_retrieve_by_id]
  by (simp add: get_feedback_statistics_def Let_def analyze_feedback_trends_def
      timestamp_of_def repository_retrieve_by_id_def example_optimizer_def
      new_feedback_optimizer_def)

text \<open>
  With a repository object that has \<open>retrieve_by_id\<close> (the mock's), the analysis counts
  the record that was applied nowhere.
\<close>

lemma unapplied_feedback_mock:
  "analyze_feedback_trends mock_retrieve_by_id (snd (process_explicit_feedback
         mock_retrieve_by_id example_optimizer None id_9 user_u 0.9 None None 1 1 1)) 30 2
       = Trend_success
           \<lparr>total_feedback = 1, explicit_feedback = 1, implicit_feedback = 0,
            daily_scores = [(0, 0.9)], model_scores = [], domain_scores = [],
            overall_score = 0.9\<rparr>"
  unfolding unknown_id_run [of mock_retrieve_by_id]
  by (simp add: get_feedback_statistics_def Let_def analyze_feedback_trends_def
      timestamp_of_def mock_retrieve_by_id_def example_optimizer_def
      new_feedback_optimizer_def group_by_def average_scores_def date_of_def dict_get_def
      score_of_def is_explicit_def with_item_def knowledge_id_of_def one_item_database_def
      example_item_def example_ids)

text \<open>
  Claim C4 does not hold of the code. The general model has ten feedbacks, all positive
  (ratio 1), and confidence 0.7 for (TCM, diagnostic consult); the claim's value is
  \<open>0.8 * 0.7 + 0.2 * 1 = 0.76\<close>. With a MatchingMatrix object the first call,
  \<open>get_domains\<close>, raises AttributeError: the method returns False, nothing is updated
  and nothing is saved. With the four getters of the mock supplied, the value 0.76 is
  handed to \<open>update_confidence\<close> as a feedback score, which blends it once more:
  the table holds \<open>0.9 * 0.7 + 0.1 * 0.76 = 0.706\<close>. \<open>save_matrix\<close> is called with
  a bare file name, for which \<open>os.makedirs('')\<close> raises, so no snapshot is written, and
  the method returns True.
\<close>

theorem optimize_model_weights_runs:
  "optimize_model_weights matching_matrix_getters ten_positive_optimizer []
     = (False, ten_positive_optimizer, [])
   \<and> fst (optimize_model_weights mock_getters ten_positive_optimizer []) = True
   \<and> confidence_of (matrix (opt_matrix (fst (snd
         (optimize_model_weights mock_getters ten_positive_optimizer [])))))
         s_tcm s_diagnostic_consult s_general_model = Some 0.706
   \<and> snd (snd (optimize_model_weights mock_getters ten_positive_optimizer [])) = []"
  by (simp add: optimize_model_weights_def matching_matrix_getters_def mock_getters_def
      ten_positive_optimizer_def ten_positive_def mock_matrix_def Let_def
      update_confidence_def confidence_of_def save_matrix_def py_dirname_def
      s_updated_matrix_json_def literal_defs)

end
